theory Spec2Isabelle
  imports Complex_Main
begin

section \<open>Isochrone server: data model\<close>

text \<open>
  The server (\<^verbatim>\<open>server/routes/isochrones.ts\<close>) answers one POST route per transport
  mode. JavaScript numbers are modelled as \<^typ>\<open>real\<close>: the arithmetic of the polygon
  generator is read as exact arithmetic, not as IEEE-754 rounding. A coordinate is the
  tuple \<^verbatim>\<open>[lon, lat]\<close> of \<^verbatim>\<open>CoordinateSchema\<close>; \<^verbatim>\<open>location[0]\<close> is \<^term>\<open>fst\<close> and
  \<^verbatim>\<open>location[1]\<close> is \<^term>\<open>snd\<close>. Times are the integers that \<^verbatim>\<open>Date.now()\<close> returns
  (milliseconds).
\<close>

type_synonym coordinate = "real \<times> real"

datatype transport = DrivingCar | CyclingRegular | FootWalking

fun transport_name :: "transport \<Rightarrow> string" where
  "transport_name DrivingCar = ''driving-car''"
| "transport_name CyclingRegular = ''cycling-regular''"
| "transport_name FootWalking = ''foot-walking''"

text \<open>\<^verbatim>\<open>IsochronesRequestSchema\<close>: the JSON body of a request, before validation.\<close>

record request =
  req_locations :: "coordinate list"
  req_range :: "real list"
  req_id :: "string option"

text \<open>\<^verbatim>\<open>GeometrySchema\<close>, \<^verbatim>\<open>FeaturePropertiesSchema\<close>, \<^verbatim>\<open>FeatureSchema\<close>.\<close>

record geometry =
  geometry_type :: string
  coordinates :: "coordinate list list"

record feature_properties =
  group_index :: nat
  prop_value :: real
  center :: coordinate

record feature =
  feature_type :: string
  geometry :: geometry
  properties :: feature_properties

text \<open>\<^verbatim>\<open>EngineSchema\<close>, \<^verbatim>\<open>QueryMetadataSchema\<close>, \<^verbatim>\<open>MetadataSchema\<close>,
  \<^verbatim>\<open>IsochronesResponseSchema\<close>.\<close>

record engine =
  version :: string
  build_date :: string
  graph_date :: string
  osm_date :: string

record query_metadata =
  query_id :: "string option"
  query_locations :: "coordinate list"
  query_range :: "real list"
  query_transport :: "transport option"

record metadata =
  metadata_id :: "string option"
  attribution :: string
  service :: string
  metadata_timestamp :: int
  query :: query_metadata
  engine :: engine

record response =
  response_type :: string
  bbox :: "real list"
  features :: "feature list"
  metadata :: metadata

section \<open>The in-memory cache\<close>

text \<open>
  \<^verbatim>\<open>const cache = new Map<string, { data: unknown; timestamp: number }>()\<close>.
  Only responses are ever stored, so \<^verbatim>\<open>data\<close> has the response type.
\<close>

record cache_entry =
  entry_data :: response
  entry_timestamp :: int

type_synonym cache = "string \<rightharpoonup> cache_entry"

definition CACHE_TTL :: int where
  "CACHE_TTL = 60 * 60 * 1000"

text \<open>
  \<^verbatim>\<open>JSON.stringify\<close> of an array of numbers and of an array of coordinate tuples. The
  text that \<^verbatim>\<open>JSON.stringify\<close> writes for one number is a built-in of the language and
  is taken as the parameter \<open>num_str\<close>.
\<close>

fun join_comma :: "string list \<Rightarrow> string" where
  "join_comma [] = ''''"
| "join_comma [s] = s"
| "join_comma (s # t # ss) = s @ '','' @ join_comma (t # ss)"

definition json_array :: "string list \<Rightarrow> string" where
  "json_array items = ''['' @ join_comma items @ '']''"

definition stringify_numbers :: "(real \<Rightarrow> string) \<Rightarrow> real list \<Rightarrow> string" where
  "stringify_numbers num_str xs = json_array (map num_str xs)"

definition stringify_locations :: "(real \<Rightarrow> string) \<Rightarrow> coordinate list \<Rightarrow> string" where
  "stringify_locations num_str ls =
     json_array (map (\<lambda>l. json_array [num_str (fst l), num_str (snd l)]) ls)"

definition getCacheKey ::
  "(real \<Rightarrow> string) \<Rightarrow> string \<Rightarrow> coordinate list \<Rightarrow> real list \<Rightarrow> string" where
  "getCacheKey num_str transport locations ranges =
     transport @ '':'' @ stringify_locations num_str locations @ '':'' @
     stringify_numbers num_str ranges"

text \<open>
  \<^verbatim>\<open>getFromCache\<close> reads the clock once (\<open>now\<close>). A stored entry is an object and a
  stored response is an object, so both are truthy; the function deletes the key on
  every path that does not return the data.
\<close>

definition getFromCache :: "string \<Rightarrow> int \<Rightarrow> cache \<Rightarrow> response option \<times> cache" where
  "getFromCache key now c =
     (case c key of
        Some cached \<Rightarrow>
          if now - entry_timestamp cached < CACHE_TTL then (Some (entry_data cached), c)
          else (None, c(key := None))
      | None \<Rightarrow> (None, c(key := None)))"

definition setCache :: "string \<Rightarrow> response \<Rightarrow> int \<Rightarrow> cache \<Rightarrow> cache" where
  "setCache key d now c = c(key \<mapsto> \<lparr>entry_data = d, entry_timestamp = now\<rparr>)"

section \<open>The polygon generator\<close>

text \<open>
  \<^verbatim>\<open>Math.random()\<close> is modelled by the sequence of the values it will return:
  a call returns the head and leaves the tail.
\<close>

type_synonym rng = "nat \<Rightarrow> real"

definition Math_random :: "rng \<Rightarrow> real \<times> rng" where
  "Math_random g = (g 0, (\<lambda>n. g (Suc n)))"

definition numPoints :: nat where
  "numPoints = 12"

definition noiseScale :: real where
  "noiseScale = 0.15"

text \<open>
  The loop \<^verbatim>\<open>for (let i = 0; i < numPoints; i++)\<close> with its body. The body is the
  source's expression over the reals. Two things differ from the doubles of the
  program and are kept out of every statement below: the rounding of each operation
  (in doubles a very small radius can leave several vertices on the same point), and
  the quotient by \<open>cos\<close> of a latitude of 90 degrees, which is a division by zero here
  and by a small non-zero double in the program.
\<close>

function points_loop ::
  "coordinate \<Rightarrow> real \<Rightarrow> nat \<Rightarrow> coordinate list \<Rightarrow> rng \<Rightarrow> coordinate list \<times> rng" where
  "points_loop location radiusDegrees i points g =
     (if i < numPoints then
        (let angle = (real i / real numPoints) * pi * 2;
             (r, g') = Math_random g;
             noise = (r - 0.5) * 2 * noiseScale;
             noisyRadius = radiusDegrees * (1 + noise);
             x = fst location +
                 (noisyRadius * cos angle) / cos ((snd location * pi) / 180);
             y = snd location + noisyRadius * sin angle
         in points_loop location radiusDegrees (i + 1) (points @ [(x, y)]) g')
      else (points, g))"
  by pat_completeness auto
termination
  by (relation "measure (\<lambda>(location, radiusDegrees, i, points, g). numPoints - i)") auto

text \<open>
  The body of \<^verbatim>\<open>range.forEach\<close>: one feature for one location and one range value.
  \<^verbatim>\<open>points.push(points[0])\<close> reads index 0 of the twelve points just pushed.
\<close>

definition make_feature :: "coordinate \<Rightarrow> nat \<Rightarrow> real \<Rightarrow> rng \<Rightarrow> feature \<times> rng" where
  "make_feature location locIndex rangeValue g =
     (let radiusDegrees = rangeValue / 1000 / 50;
          (points, g') = points_loop location radiusDegrees 0 [] g;
          closed = points @ [points ! 0]
      in (\<lparr>feature_type = ''Feature'',
           geometry = \<lparr>geometry_type = ''Polygon'', coordinates = [closed]\<rparr>,
           properties = \<lparr>group_index = locIndex, prop_value = rangeValue,
                         center = location\<rparr>\<rparr>, g'))"

fun range_forEach ::
  "coordinate \<Rightarrow> nat \<Rightarrow> real list \<Rightarrow> feature list \<Rightarrow> rng \<Rightarrow> feature list \<times> rng" where
  "range_forEach location locIndex [] fs g = (fs, g)"
| "range_forEach location locIndex (rangeValue # rest) fs g =
     (let (f, g') = make_feature location locIndex rangeValue g
      in range_forEach location locIndex rest (fs @ [f]) g')"

fun locations_forEach ::
  "coordinate list \<Rightarrow> nat \<Rightarrow> real list \<Rightarrow> feature list \<Rightarrow> rng \<Rightarrow> feature list \<times> rng" where
  "locations_forEach [] locIndex ranges fs g = (fs, g)"
| "locations_forEach (location # rest) locIndex ranges fs g =
     (let (fs', g') = range_forEach location locIndex ranges fs g
      in locations_forEach rest (locIndex + 1) ranges fs' g')"

text \<open>
  \<^verbatim>\<open>generateMockIsochrones\<close>; \<open>now\<close> is the value of the \<^verbatim>\<open>Date.now()\<close> call in the
  returned object.
\<close>

definition generateMockIsochrones ::
  "coordinate list \<Rightarrow> real list \<Rightarrow> string option \<Rightarrow> transport option \<Rightarrow> int \<Rightarrow> rng
   \<Rightarrow> response \<times> rng" where
  "generateMockIsochrones locations ranges ident transport now g =
     (let (fs, g') = locations_forEach locations 0 ranges [] g
      in (\<lparr>response_type = ''FeatureCollection'',
           bbox = [-180, -90, 180, 90],
           features = fs,
           metadata = \<lparr>metadata_id = ident,
                       attribution = ''openrouteservice.org | OpenStreetMap contributors'',
                       service = ''isochrones'',
                       metadata_timestamp = now,
                       query = \<lparr>query_id = ident, query_locations = locations,
                                query_range = ranges, query_transport = transport\<rparr>,
                       engine = \<lparr>version = ''9.5.0'',
                                 build_date = ''2025-10-31T12:33:09Z'',
                                 graph_date = ''2025-12-28T11:13:32Z'',
                                 osm_date = ''2025-12-22T00:59:58Z''\<rparr>\<rparr>\<rparr>, g'))"

section \<open>The route handlers\<close>

text \<open>
  The state of the server process: the cache and the random source. One run of a
  handler reads the clock at most three times: in \<^verbatim>\<open>getFromCache\<close>, in
  \<^verbatim>\<open>generateMockIsochrones\<close> and in \<^verbatim>\<open>setCache\<close>; the three values are given in that
  order.
\<close>

record server_state =
  cache :: cache
  rng :: rng

record clock_readings =
  t_lookup :: int
  t_generate :: int
  t_store :: int

datatype body = Json response | JsonError string | ValidationFailure

record http_response =
  status :: nat
  headers :: "(string \<times> string) list"
  body :: body

text \<open>
  \<^verbatim>\<open>zValidator("json", IsochronesRequestSchema)\<close> runs before the handler and answers
  400 itself when the body does not parse: \<^verbatim>\<open>locations\<close> and \<^verbatim>\<open>range\<close> are
  \<^verbatim>\<open>.nonempty()\<close>, every range value is \<^verbatim>\<open>.positive()\<close>.
\<close>

definition valid_request :: "request \<Rightarrow> bool" where
  "valid_request req \<longleftrightarrow>
     req_locations req \<noteq> [] \<and> req_range req \<noteq> [] \<and> list_all (\<lambda>r. 0 < r) (req_range req)"

definition c_json :: "nat \<Rightarrow> (string \<times> string) list \<Rightarrow> body \<Rightarrow> http_response" where
  "c_json st hs b =
     \<lparr>status = st, headers = hs @ [(''Content-Type'', ''application/json'')], body = b\<rparr>"

text \<open>
  The three handlers are the same code with a different transport literal. Nothing in
  the \<^verbatim>\<open>try\<close> block of the model throws, so the \<^verbatim>\<open>catch\<close> branch (status 500) has
  no counterpart.
\<close>

definition isochrones_post ::
  "(real \<Rightarrow> string) \<Rightarrow> transport \<Rightarrow> request \<Rightarrow> clock_readings \<Rightarrow> server_state
   \<Rightarrow> http_response \<times> server_state" where
  "isochrones_post num_str tr req t s =
     (if \<not> valid_request req then (c_json 400 [] ValidationFailure, s)
      else
        (let cacheKey = getCacheKey num_str (transport_name tr) (req_locations req)
                          (req_range req);
             (cached, c1) = getFromCache cacheKey (t_lookup t) (cache s)
         in case cached of
              Some d \<Rightarrow> (c_json 200 [] (Json d), s\<lparr>cache := c1\<rparr>)
            | None \<Rightarrow>
                (let (result, g') =
                       generateMockIsochrones (req_locations req) (req_range req)
                         (req_id req) (Some tr) (t_generate t) (rng s);
                     c2 = setCache cacheKey result (t_store t) c1
                 in (c_json 200 [(''Cache-Control'', ''public, max-age=3600'')]
                       (Json result),
                     \<lparr>cache = c2, rng = g'\<rparr>))))"

definition post_driving_car where
  "post_driving_car num_str = isochrones_post num_str DrivingCar"

definition post_foot_walking where
  "post_foot_walking num_str = isochrones_post num_str FootWalking"

definition post_cycling_regular where
  "post_cycling_regular num_str = isochrones_post num_str CyclingRegular"

definition header_of :: "http_response \<Rightarrow> string \<Rightarrow> string option" where
  "header_of r name = map_of (headers r) name"

section \<open>The overlap pass of the client\<close>

text \<open>
  \<^verbatim>\<open>useIntersections\<close> (\<^verbatim>\<open>client/src/hooks/use-map.ts\<close>) hands one query per marker to
  \<^verbatim>\<open>useQueries\<close> and computes the intersections in its \<^verbatim>\<open>combine\<close> callback. The callback
  receives one result object per query; it reads only \<^verbatim>\<open>.data\<close>, which is \<^verbatim>\<open>undefined\<close>
  as long as no response has arrived for the query.
\<close>

datatype query_status = Pending | Errored | Success

record query_result =
  q_status :: query_status
  q_data :: "response option"

record path_options =
  color :: string
  weight :: real
  opacity :: real
  fillOpacity :: real

record 'g map_geojson =
  geo_key :: string
  geo_data :: 'g
  geo_style :: path_options

datatype js_error = TypeError | TurfError string

text \<open>
  The two functions of the turf library are parameters of the model: \<open>polygon\<close> builds a
  polygon feature from rings and throws on a ring it does not accept; \<open>intersect\<close>
  (applied to the feature collection of two polygons) returns a feature or \<^verbatim>\<open>null\<close>.
  \<open>num_str\<close> is the text of a number, as in the cache key.

  The body of the inner loop, after both \<^verbatim>\<open>data\<close> checks. \<^verbatim>\<open>dataI.features[0]\<close> of an
  empty feature list is \<^verbatim>\<open>undefined\<close>, and reading \<^verbatim>\<open>.geometry\<close> of it throws; so does
  \<^verbatim>\<open>coordsI[0][0].join\<close> without a first ring or a first coordinate. An array is truthy,
  so \<^verbatim>\<open>if (!coordsI || !coordsJ) continue\<close> is never taken for data of the response type.
\<close>

definition coords_key :: "(real \<Rightarrow> string) \<Rightarrow> coordinate list list \<Rightarrow> js_error + string" where
  "coords_key num_str coords =
     (case coords of
        [] \<Rightarrow> Inl TypeError
      | ring # _ \<Rightarrow>
          (case ring of
             [] \<Rightarrow> Inl TypeError
           | c # _ \<Rightarrow> Inr (num_str (fst c) @ '','' @ num_str (snd c))))"

definition intersect_pair ::
  "(coordinate list list \<Rightarrow> js_error + 'p) \<Rightarrow> ('p \<Rightarrow> 'p \<Rightarrow> 'g option) \<Rightarrow> (real \<Rightarrow> string)
   \<Rightarrow> response \<Rightarrow> response \<Rightarrow> js_error + 'g map_geojson option" where
  "intersect_pair polygon intersect num_str dataI dataJ =
     (case features dataI of
        [] \<Rightarrow> Inl TypeError
      | fI # _ \<Rightarrow>
     (case features dataJ of
        [] \<Rightarrow> Inl TypeError
      | fJ # _ \<Rightarrow>
     (let coordsI = coordinates (geometry fI);
          coordsJ = coordinates (geometry fJ)
      in case polygon coordsI of
           Inl e \<Rightarrow> Inl e
         | Inr polygon1 \<Rightarrow>
        (case polygon coordsJ of
           Inl e \<Rightarrow> Inl e
         | Inr polygon2 \<Rightarrow>
        (case intersect polygon1 polygon2 of
           None \<Rightarrow> Inr None
         | Some intersection \<Rightarrow>
        (case coords_key num_str coordsI of
           Inl e \<Rightarrow> Inl e
         | Inr keyI \<Rightarrow>
        (case coords_key num_str coordsJ of
           Inl e \<Rightarrow> Inl e
         | Inr keyJ \<Rightarrow>
             Inr (Some \<lparr>geo_key = ''intersection-'' @ keyI @ ''-'' @ keyJ,
                        geo_data = intersection,
                        geo_style = \<lparr>color = ''#8b5cf6'', weight = 2, opacity = 1,
                                      fillOpacity = 0.4\<rparr>\<rparr>))))))))"

text \<open>The loop \<^verbatim>\<open>for (let j = i + 1; j < results.length; j++)\<close>.\<close>

function inner_loop ::
  "(coordinate list list \<Rightarrow> js_error + 'p) \<Rightarrow> ('p \<Rightarrow> 'p \<Rightarrow> 'g option) \<Rightarrow> (real \<Rightarrow> string)
   \<Rightarrow> query_result list \<Rightarrow> response \<Rightarrow> nat \<Rightarrow> 'g map_geojson list
   \<Rightarrow> js_error + 'g map_geojson list" where
  "inner_loop polygon intersect num_str results dataI j intersections =
     (if j < length results then
        (case q_data (results ! j) of
           None \<Rightarrow> inner_loop polygon intersect num_str results dataI (j + 1) intersections
         | Some dataJ \<Rightarrow>
             (case intersect_pair polygon intersect num_str dataI dataJ of
                Inl e \<Rightarrow> Inl e
              | Inr None \<Rightarrow>
                  inner_loop polygon intersect num_str results dataI (j + 1) intersections
              | Inr (Some m) \<Rightarrow>
                  inner_loop polygon intersect num_str results dataI (j + 1)
                    (intersections @ [m])))
      else Inr intersections)"
  by pat_completeness auto
termination
  by (relation "measure (\<lambda>(polygon, intersect, num_str, results, dataI, j, intersections).
                  length results - j)") auto

text \<open>The loop \<^verbatim>\<open>for (let i = 0; i < results.length; i++)\<close>.\<close>

function outer_loop ::
  "(coordinate list list \<Rightarrow> js_error + 'p) \<Rightarrow> ('p \<Rightarrow> 'p \<Rightarrow> 'g option) \<Rightarrow> (real \<Rightarrow> string)
   \<Rightarrow> query_result list \<Rightarrow> nat \<Rightarrow> 'g map_geojson list \<Rightarrow> js_error + 'g map_geojson list" where
  "outer_loop polygon intersect num_str results i intersections =
     (if i < length results then
        (case q_data (results ! i) of
           None \<Rightarrow> outer_loop polygon intersect num_str results (i + 1) intersections
         | Some dataI \<Rightarrow>
             (case inner_loop polygon intersect num_str results dataI (i + 1) intersections of
                Inl e \<Rightarrow> Inl e
              | Inr intersections' \<Rightarrow>
                  outer_loop polygon intersect num_str results (i + 1) intersections'))
      else Inr intersections)"
  by pat_completeness auto
termination
  by (relation "measure (\<lambda>(polygon, intersect, num_str, results, i, intersections).
                  length results - i)") auto

definition combine ::
  "(coordinate list list \<Rightarrow> js_error + 'p) \<Rightarrow> ('p \<Rightarrow> 'p \<Rightarrow> 'g option) \<Rightarrow> (real \<Rightarrow> string)
   \<Rightarrow> query_result list \<Rightarrow> js_error + 'g map_geojson list" where
  "combine polygon intersect num_str results =
     outer_loop polygon intersect num_str results 0 []"

section \<open>Auxiliary definitions for the statements\<close>

text \<open>
  The vertex that one iteration of the loop pushes, as a function of the centre, the
  radius in degrees, the value \<open>r\<close> that \<^verbatim>\<open>Math.random()\<close> returned and the index \<open>i\<close>;
  and the closed ring built from the twelve vertices.
\<close>

definition ring_vertex :: "coordinate \<Rightarrow> real \<Rightarrow> real \<Rightarrow> nat \<Rightarrow> coordinate" where
  "ring_vertex location radiusDegrees r i =
     (fst location +
        (radiusDegrees * (1 + (r - 0.5) * 2 * noiseScale) *
           cos ((real i / real numPoints) * pi * 2)) / cos ((snd location * pi) / 180),
      snd location +
        radiusDegrees * (1 + (r - 0.5) * 2 * noiseScale) *
          sin ((real i / real numPoints) * pi * 2))"

definition ring_of :: "coordinate \<Rightarrow> real \<Rightarrow> rng \<Rightarrow> coordinate list" where
  "ring_of loc rd g =
     map (\<lambda>k. ring_vertex loc rd (g k) k) [0..<numPoints] @ [ring_vertex loc rd (g 0) 0]"

text \<open>
  For the overlap pass: the pairs of a list in the order in which the two loops visit
  them, by elements (\<open>pairs_of\<close>) and by positions (\<open>index_pairs\<close>); the outcome of a
  sequence of steps of which each throws, adds nothing or adds one item (\<open>collect\<close>);
  the outcome of the loop body for two results (\<open>pair_result\<close>) and the item it adds,
  if any (\<open>overlap_of\<close>); the turf polygon of a result that has data
  (\<open>polygon_of\<close>); two results whose polygons have no intersection (\<open>disjoint_at\<close>);
  a result that is without data or holds one accepted polygon of a single non-empty
  ring (\<open>single_ring_result\<close>); a result whose \<^verbatim>\<open>data\<close> is defined (\<open>has_data\<close>).
\<close>

fun pairs_of :: "'a list \<Rightarrow> ('a \<times> 'a) list" where
  "pairs_of [] = []"
| "pairs_of (x # xs) = map (Pair x) xs @ pairs_of xs"

definition index_pairs :: "nat \<Rightarrow> (nat \<times> nat) list" where
  "index_pairs n = concat (map (\<lambda>i. map (Pair i) [Suc i..<n]) [0..<n])"

definition append_to :: "'a list \<Rightarrow> 'e + 'a list \<Rightarrow> 'e + 'a list" where
  "append_to acc r = (case r of Inl e \<Rightarrow> Inl e | Inr ys \<Rightarrow> Inr (acc @ ys))"

fun collect :: "('e + 'a option) list \<Rightarrow> 'e + 'a list" where
  "collect [] = Inr []"
| "collect (Inl e # rest) = Inl e"
| "collect (Inr None # rest) = collect rest"
| "collect (Inr (Some y) # rest) = append_to [y] (collect rest)"

definition pair_result ::
  "(coordinate list list \<Rightarrow> js_error + 'p) \<Rightarrow> ('p \<Rightarrow> 'p \<Rightarrow> 'g option) \<Rightarrow> (real \<Rightarrow> string)
   \<Rightarrow> query_result \<Rightarrow> query_result \<Rightarrow> js_error + 'g map_geojson option" where
  "pair_result polygon intersect num_str a b =
     (case q_data a of
        None \<Rightarrow> Inr None
      | Some dataI \<Rightarrow>
          (case q_data b of
             None \<Rightarrow> Inr None
           | Some dataJ \<Rightarrow> intersect_pair polygon intersect num_str dataI dataJ))"

definition overlap_of ::
  "(coordinate list list \<Rightarrow> js_error + 'p) \<Rightarrow> ('p \<Rightarrow> 'p \<Rightarrow> 'g option) \<Rightarrow> (real \<Rightarrow> string)
   \<Rightarrow> query_result \<Rightarrow> query_result \<Rightarrow> 'g map_geojson option" where
  "overlap_of polygon intersect num_str a b =
     (case pair_result polygon intersect num_str a b of Inl e \<Rightarrow> None | Inr r \<Rightarrow> r)"

definition polygon_of ::
  "(coordinate list list \<Rightarrow> js_error + 'p) \<Rightarrow> query_result \<Rightarrow> 'p option" where
  "polygon_of polygon r =
     (case q_data r of
        None \<Rightarrow> None
      | Some d \<Rightarrow>
          (case features d of
             [] \<Rightarrow> None
           | f # _ \<Rightarrow>
               (case polygon (coordinates (geometry f)) of
                  Inl e \<Rightarrow> None
                | Inr p \<Rightarrow> Some p)))"

definition disjoint_at ::
  "(coordinate list list \<Rightarrow> js_error + 'p) \<Rightarrow> ('p \<Rightarrow> 'p \<Rightarrow> 'g option)
   \<Rightarrow> query_result \<Rightarrow> query_result \<Rightarrow> bool" where
  "disjoint_at polygon intersect a b =
     (case polygon_of polygon a of
        None \<Rightarrow> True
      | Some p \<Rightarrow>
          (case polygon_of polygon b of
             None \<Rightarrow> True
           | Some q \<Rightarrow> (case intersect p q of None \<Rightarrow> True | Some g \<Rightarrow> False)))"

definition single_ring_result ::
  "(coordinate list list \<Rightarrow> js_error + 'p) \<Rightarrow> query_result \<Rightarrow> bool" where
  "single_ring_result polygon r =
     (case q_data r of
        None \<Rightarrow> True
      | Some d \<Rightarrow>
          (case features d of
             [] \<Rightarrow> False
           | f # _ \<Rightarrow>
               (case coordinates (geometry f) of
                  [] \<Rightarrow> False
                | ring # others \<Rightarrow>
                    others = [] \<and> ring \<noteq> [] \<and>
                    (case polygon [ring] of Inl e \<Rightarrow> False | Inr p \<Rightarrow> True))))"

definition has_data :: "query_result \<Rightarrow> bool" where
  "has_data r = (case q_data r of None \<Rightarrow> False | Some d \<Rightarrow> True)"

text \<open>
  Example data: the response whose polygon is the unit square with lower left corner
  \<open>(x, 0)\<close>, a query that succeeded with it, a query that is still pending; and
  stand-ins for the library functions: a \<open>polygon\<close> that accepts every argument, an
  \<open>intersect\<close> for which equal polygons overlap in themselves and different ones do
  not overlap (true of the squares used here, at distance 5), and a number format.
\<close>

definition square_ring :: "real \<Rightarrow> coordinate list" where
  "square_ring x = [(x, 0), (x + 1, 0), (x + 1, 1), (x, 1), (x, 0)]"

definition square_response :: "real \<Rightarrow> response" where
  "square_response x =
     \<lparr>response_type = ''FeatureCollection'',
      bbox = [-180, -90, 180, 90],
      features =
        [\<lparr>feature_type = ''Feature'',
          geometry = \<lparr>geometry_type = ''Polygon'', coordinates = [square_ring x]\<rparr>,
          properties = \<lparr>group_index = 0, prop_value = 500, center = (x, 0)\<rparr>\<rparr>],
      metadata =
        \<lparr>metadata_id = None,
         attribution = ''openrouteservice.org | OpenStreetMap contributors'',
         service = ''isochrones'',
         metadata_timestamp = 0,
         query = \<lparr>query_id = None, query_locations = [(x, 0)], query_range = [500],
                  query_transport = Some FootWalking\<rparr>,
         engine = \<lparr>version = ''9.5.0'',
                   build_date = ''2025-10-31T12:33:09Z'',
                   graph_date = ''2025-12-28T11:13:32Z'',
                   osm_date = ''2025-12-22T00:59:58Z''\<rparr>\<rparr>\<rparr>"

definition square_result :: "real \<Rightarrow> query_result" where
  "square_result x = \<lparr>q_status = Success, q_data = Some (square_response x)\<rparr>"

definition pending_result :: query_result where
  "pending_result = \<lparr>q_status = Pending, q_data = None\<rparr>"

definition accept_polygon :: "coordinate list list \<Rightarrow> js_error + coordinate list list" where
  "accept_polygon coords = Inr coords"

definition same_region ::
  "coordinate list list \<Rightarrow> coordinate list list \<Rightarrow> coordinate list list option" where
  "same_region p q = (if p = q then Some p else None)"

definition zero_str :: "real \<Rightarrow> string" where
  "zero_str r = ''0''"

section \<open>Properties of the polygon generator\<close>

declare points_loop.simps [simp del]

lemma points_loop_step:
  "i < numPoints \<Longrightarrow>
   points_loop loc rd i pts g =
     points_loop loc rd (Suc i) (pts @ [ring_vertex loc rd (g 0) i]) (\<lambda>n. g (Suc n))"
  by (subst points_loop.simps) (simp add: Math_random_def ring_vertex_def Let_def)

lemma points_loop_stop:
  "\<not> i < numPoints \<Longrightarrow> points_loop loc rd i pts g = (pts, g)"
  by (subst points_loop.simps) simp

lemma points_loop_eq:
  "i \<le> numPoints \<Longrightarrow>
   points_loop loc rd i pts g =
     (pts @ map (\<lambda>k. ring_vertex loc rd (g (k - i)) k) [i..<numPoints],
      (\<lambda>n. g (n + (numPoints - i))))"
proof (induction "numPoints - i" arbitrary: i pts g)
  case 0
  then have "i = numPoints" by simp
  then show ?case by (simp add: points_loop_stop)
next
  case (Suc d)
  then have lt: "i < numPoints" and d: "d = numPoints - Suc i" and le: "Suc i \<le> numPoints"
    by simp_all
  have m: "map (\<lambda>k. ring_vertex loc rd (g (Suc (k - Suc i))) k) [Suc i..<numPoints] =
           map (\<lambda>k. ring_vertex loc rd (g (k - i)) k) [Suc i..<numPoints]"
    by (rule map_cong) (auto simp: Suc_diff_Suc)
  have s: "(\<lambda>n. g (Suc (n + (numPoints - Suc i)))) = (\<lambda>n. g (n + (numPoints - i)))"
    using lt by (auto simp: fun_eq_iff Suc_diff_Suc)
  have u: "[i..<numPoints] = i # [Suc i..<numPoints]"
    using lt by (rule upt_conv_Cons)
  have "points_loop loc rd i pts g =
        points_loop loc rd (Suc i) (pts @ [ring_vertex loc rd (g 0) i]) (\<lambda>n. g (Suc n))"
    using lt by (rule points_loop_step)
  also have "\<dots> =
        ((pts @ [ring_vertex loc rd (g 0) i]) @
           map (\<lambda>k. ring_vertex loc rd (g (Suc (k - Suc i))) k) [Suc i..<numPoints],
         (\<lambda>n. g (Suc (n + (numPoints - Suc i)))))"
    using d le by (rule Suc.hyps(1))
  also have "\<dots> =
        (pts @ map (\<lambda>k. ring_vertex loc rd (g (k - i)) k) [i..<numPoints],
         (\<lambda>n. g (n + (numPoints - i))))"
    unfolding m s u by simp
  finally show ?case .
qed

lemma make_feature_eq:
  "make_feature loc k rv g =
     (\<lparr>feature_type = ''Feature'',
       geometry = \<lparr>geometry_type = ''Polygon'',
                   coordinates = [ring_of loc (rv / 1000 / 50) g]\<rparr>,
       properties = \<lparr>group_index = k, prop_value = rv, center = loc\<rparr>\<rparr>,
      (\<lambda>n. g (n + numPoints)))"
proof -
  have pos: "0 < numPoints" by (simp add: numPoints_def)
  have "map (\<lambda>k. ring_vertex loc (rv / 1000 / 50) (g k) k) [0..<numPoints] ! 0 =
        ring_vertex loc (rv / 1000 / 50) (g 0) 0"
    using pos by (simp del: upt_Suc)
  then show ?thesis
    by (simp add: make_feature_def points_loop_eq ring_of_def Let_def del: upt_Suc)
qed

lemma range_forEach_eq:
  "range_forEach loc k rs fs g =
     (fs @ map (\<lambda>j. fst (make_feature loc k (rs ! j) (\<lambda>n. g (n + numPoints * j))))
             [0..<length rs],
      (\<lambda>n. g (n + numPoints * length rs)))"
proof (induction rs arbitrary: fs g)
  case Nil
  show ?case by simp
next
  case (Cons rv rest)
  have u: "[0..<Suc (length rest)] = 0 # map Suc [0..<length rest]"
    by (simp add: upt_conv_Cons map_Suc_upt del: upt_Suc)
  show ?case
    by (simp add: make_feature_eq Cons.IH u comp_def add_ac del: upt_Suc)
qed

lemma locations_forEach_eq:
  "locations_forEach ls k rs fs g =
     (fs @ concat (map (\<lambda>i. map (\<lambda>j. fst (make_feature (ls ! i) (k + i) (rs ! j)
                                  (\<lambda>n. g (n + numPoints * (i * length rs + j)))))
                             [0..<length rs])
                  [0..<length ls]),
      (\<lambda>n. g (n + numPoints * (length ls * length rs))))"
proof (induction ls arbitrary: k fs g)
  case Nil
  show ?case by simp
next
  case (Cons l rest)
  have u: "[0..<Suc (length rest)] = 0 # map Suc [0..<length rest]"
    by (simp add: upt_conv_Cons map_Suc_upt del: upt_Suc)
  show ?case
    by (simp add: range_forEach_eq Cons.IH u comp_def add_ac distrib_left del: upt_Suc)
qed

lemma concat_uniform_nth:
  "(\<And>i. i < n \<Longrightarrow> length (f i) = m) \<Longrightarrow> i < n \<Longrightarrow> j < m \<Longrightarrow>
   concat (map f [0..<n]) ! (i * m + j) = f i ! j"
proof (induction n arbitrary: i)
  case 0
  then show ?case by simp
next
  case (Suc n)
  have len: "length (concat (map f [0..<n])) = n * m"
    using Suc.prems(1) by (induction n) simp_all
  show ?case
  proof (cases "i < n")
    case True
    have "i * m + j < Suc i * m" using Suc.prems(3) by simp
    also have "\<dots> \<le> n * m" using True by (intro mult_le_mono1) simp
    finally have "i * m + j < n * m" .
    then show ?thesis using Suc True len by (simp add: nth_append)
  next
    case False
    then have "i = n" using Suc.prems(2) by simp
    then show ?thesis using len by (simp add: nth_append)
  qed
qed

lemma concat_uniform_length:
  "(\<And>i. i < n \<Longrightarrow> length (f i) = m) \<Longrightarrow> length (concat (map f [0..<n])) = n * m"
  by (induction n) simp_all

lemma generateMockIsochrones_features_eq:
  "features (fst (generateMockIsochrones locations ranges ident tr now g)) =
     concat (map (\<lambda>i. map (\<lambda>j. fst (make_feature (locations ! i) i (ranges ! j)
                                  (\<lambda>n. g (n + numPoints * (i * length ranges + j)))))
                             [0..<length ranges])
                  [0..<length locations])"
  by (simp add: generateMockIsochrones_def locations_forEach_eq del: upt_Suc)

lemma generateMockIsochrones_length:
  "length (features (fst (generateMockIsochrones locations ranges ident tr now g))) =
     length locations * length ranges"
  unfolding generateMockIsochrones_features_eq
  by (rule concat_uniform_length) simp

lemma generateMockIsochrones_nth:
  assumes "i < length locations" and "j < length ranges"
  shows "features (fst (generateMockIsochrones locations ranges ident tr now g)) !
           (i * length ranges + j) =
         fst (make_feature (locations ! i) i (ranges ! j)
                (\<lambda>n. g (n + numPoints * (i * length ranges + j))))"
proof -
  let ?f = "\<lambda>i. map (\<lambda>j. fst (make_feature (locations ! i) i (ranges ! j)
                                  (\<lambda>n. g (n + numPoints * (i * length ranges + j)))))
                             [0..<length ranges]"
  have "concat (map ?f [0..<length locations]) ! (i * length ranges + j) = ?f i ! j"
    using assms by (intro concat_uniform_nth) simp_all
  then show ?thesis
    unfolding generateMockIsochrones_features_eq using assms by simp
qed



lemma ring_of_nth: "k < 12 \<Longrightarrow> ring_of loc rd g ! k = ring_vertex loc rd (g k) k"
  by (simp add: ring_of_def nth_append numPoints_def del: upt_Suc)


section \<open>The claims about the polygon generator\<close>

text \<open>
  Claim C1. The feature collection of \<^verbatim>\<open>generateMockIsochrones\<close> has exactly
  \<open>length locations * length ranges\<close> features, in location-major, range-minor order:
  the feature at position \<open>i * length ranges + j\<close> carries \<open>group_index = i\<close>, the index
  of its location, the value \<open>ranges ! j\<close> and the centre \<open>locations ! i\<close>. This holds for
  all argument lists, hence for those of every valid request.
\<close>

theorem feature_count_and_order:
  "length (features (fst (generateMockIsochrones locations ranges ident tr now g))) =
     length locations * length ranges \<and>
   (\<forall>i < length locations. \<forall>j < length ranges.
      group_index (properties
        (features (fst (generateMockIsochrones locations ranges ident tr now g)) !
           (i * length ranges + j))) = i \<and>
      prop_value (properties
        (features (fst (generateMockIsochrones locations ranges ident tr now g)) !
           (i * length ranges + j))) = ranges ! j \<and>
      center (properties
        (features (fst (generateMockIsochrones locations ranges ident tr now g)) !
           (i * length ranges + j))) = locations ! i)"
  by (simp add: generateMockIsochrones_length generateMockIsochrones_nth make_feature_eq)

theorem feature_count_and_order_witness:
  "length (features (fst (generateMockIsochrones [(0, 0), (1, 1)] [100, 200] None
             (Some FootWalking) 0 (\<lambda>n. 1 / 2)))) = 4 \<and>
   group_index (properties (features (fst (generateMockIsochrones [(0, 0), (1, 1)]
             [100, 200] None (Some FootWalking) 0 (\<lambda>n. 1 / 2))) ! 3)) = 1 \<and>
   prop_value (properties (features (fst (generateMockIsochrones [(0, 0), (1, 1)]
             [100, 200] None (Some FootWalking) 0 (\<lambda>n. 1 / 2))) ! 3)) = 200"
proof -
  note h = feature_count_and_order [of "[(0, 0), (1, 1)]" "[100, 200]" None
             "Some FootWalking" 0 "\<lambda>n. 1 / 2"]
  have i: "(1::nat) < length [(0::real, 0::real), (1, 1)]" by simp
  have j: "(1::nat) < length [100::real, 200]" by simp
  from h have len: "length (features (fst (generateMockIsochrones [(0, 0), (1, 1)]
             [100, 200] None (Some FootWalking) 0 (\<lambda>n. 1 / 2)))) = 4"
    by simp
  from h [THEN conjunct2, rule_format, OF i j] len show ?thesis
    by (simp add: numeral_3_eq_3)
qed



text \<open>
  Claim C7. In the ring of the feature for location \<open>i\<close> and range value \<open>j\<close>, the
  vertex \<open>k\<close> (of the twelve) lies at the angle \<open>k / 12 * 2 * pi\<close>, at the radius
  \<open>radiusDegrees * (1 + noise)\<close> with \<open>radiusDegrees = range / 1000 / 50\<close>; the longitude
  offset is multiplied by \<open>1 / cos\<close> of the latitude in radians, the latitude offset
  is not. The noise of a vertex is \<open>(r - 0.5) * 2 * 0.15\<close> for a value \<open>r\<close> of
  \<^verbatim>\<open>Math.random()\<close> that no other vertex of any ring uses (the
  \<open>12 * (i * length ranges + j) + k\<close>-th value after the call began), and it lies
  between \<open>-0.15\<close> and \<open>0.15\<close> when \<open>r\<close> lies in \<open>[0, 1)\<close>. The distribution of \<open>r\<close> is
  that of \<^verbatim>\<open>Math.random()\<close> and is outside the model.
\<close>

theorem ring_vertex_formula:
  assumes "i < length locations" and "j < length ranges" and "k < 12"
  shows
    "let f = features (fst (generateMockIsochrones locations ranges ident tr now g)) !
               (i * length ranges + j);
         ring = hd (coordinates (geometry f));
         lon = fst (locations ! i);
         lat = snd (locations ! i);
         r = g (12 * (i * length ranges + j) + k);
         noise = (r - 0.5) * 2 * 0.15;
         radiusDegrees = ranges ! j / 1000 / 50;
         angle = real k / 12 * (2 * pi)
     in ring ! k =
          (lon + radiusDegrees * (1 + noise) * cos angle * (1 / cos (lat * pi / 180)),
           lat + radiusDegrees * (1 + noise) * sin angle) \<and>
        (0 \<le> r \<and> r < 1 \<longrightarrow> - 0.15 \<le> noise \<and> noise \<le> 0.15)"
proof -
  have nth: "features (fst (generateMockIsochrones locations ranges ident tr now g)) !
               (i * length ranges + j) =
             fst (make_feature (locations ! i) i (ranges ! j)
                    (\<lambda>n. g (n + numPoints * (i * length ranges + j))))"
    using assms(1,2) by (rule generateMockIsochrones_nth)
  have ring: "hd (coordinates (geometry
                (features (fst (generateMockIsochrones locations ranges ident tr now g)) !
                   (i * length ranges + j)))) ! k =
              ring_vertex (locations ! i) (ranges ! j / 1000 / 50)
                (g (12 * (i * length ranges + j) + k)) k"
    unfolding nth using assms(3)
    by (simp add: make_feature_eq ring_of_nth numPoints_def add.commute)
  have formula: "ring_vertex (locations ! i) (ranges ! j / 1000 / 50)
                   (g (12 * (i * length ranges + j) + k)) k =
       (fst (locations ! i) +
          ranges ! j / 1000 / 50 *
            (1 + (g (12 * (i * length ranges + j) + k) - 0.5) * 2 * 0.15) *
            cos (real k / 12 * (2 * pi)) * (1 / cos (snd (locations ! i) * pi / 180)),
        snd (locations ! i) +
          ranges ! j / 1000 / 50 *
            (1 + (g (12 * (i * length ranges + j) + k) - 0.5) * 2 * 0.15) *
            sin (real k / 12 * (2 * pi)))"
    by (simp add: ring_vertex_def numPoints_def noiseScale_def)
  show ?thesis
    unfolding Let_def ring formula by simp
qed

theorem ring_vertex_formula_witness:
  "hd (coordinates (geometry (features (fst (generateMockIsochrones [(0, 0)] [50000] None
         (Some DrivingCar) 0 (\<lambda>n. 1 / 2))) ! 0))) ! 3 = (0, 1)"
proof -
  have i: "(0::nat) < length [(0::real, 0::real)]" by simp
  have j: "(0::nat) < length [50000::real]" by simp
  have k: "(3::nat) < 12" by simp
  show ?thesis
    using ring_vertex_formula [OF i j k, of None "Some DrivingCar" 0 "\<lambda>n. 1 / 2"]
    by (simp add: Let_def)
qed

section \<open>Properties of the cache and of the handlers\<close>

lemma getFromCache_hit:
  "c key = Some e \<Longrightarrow> now - entry_timestamp e < CACHE_TTL \<Longrightarrow>
   getFromCache key now c = (Some (entry_data e), c)"
  by (simp add: getFromCache_def)

lemma getFromCache_None_cases:
  "fst (getFromCache key now c) = None \<Longrightarrow> snd (getFromCache key now c) = c(key := None)"
  by (auto simp: getFromCache_def split: option.splits if_splits)

lemma generateMockIsochrones_metadata:
  "metadata (fst (generateMockIsochrones locations ranges ident tr now g)) =
     \<lparr>metadata_id = ident,
      attribution = ''openrouteservice.org | OpenStreetMap contributors'',
      service = ''isochrones'',
      metadata_timestamp = now,
      query = \<lparr>query_id = ident, query_locations = locations,
               query_range = ranges, query_transport = tr\<rparr>,
      engine = \<lparr>version = ''9.5.0'',
                build_date = ''2025-10-31T12:33:09Z'',
                graph_date = ''2025-12-28T11:13:32Z'',
                osm_date = ''2025-12-22T00:59:58Z''\<rparr>\<rparr>"
  by (simp add: generateMockIsochrones_def split: prod.splits)

lemma isochrones_post_invalid:
  "\<not> valid_request req \<Longrightarrow>
   isochrones_post ns tr req t s = (c_json 400 [] ValidationFailure, s)"
  by (simp add: isochrones_post_def)

lemma isochrones_post_hit:
  assumes "valid_request req"
    and "cache s (getCacheKey ns (transport_name tr) (req_locations req) (req_range req)) =
           Some e"
    and "t_lookup t - entry_timestamp e < CACHE_TTL"
  shows "isochrones_post ns tr req t s = (c_json 200 [] (Json (entry_data e)), s)"
  using assms by (simp add: isochrones_post_def getFromCache_hit)

lemma isochrones_post_miss:
  assumes "valid_request req"
    and "fst (getFromCache (getCacheKey ns (transport_name tr) (req_locations req)
                (req_range req)) (t_lookup t) (cache s)) = None"
  shows "isochrones_post ns tr req t s =
     (c_json 200 [(''Cache-Control'', ''public, max-age=3600'')]
        (Json (fst (generateMockIsochrones (req_locations req) (req_range req) (req_id req)
                 (Some tr) (t_generate t) (rng s)))),
      \<lparr>cache = (cache s)(getCacheKey ns (transport_name tr) (req_locations req)
                   (req_range req) \<mapsto>
                 \<lparr>entry_data = fst (generateMockIsochrones (req_locations req)
                                 (req_range req) (req_id req) (Some tr) (t_generate t)
                                 (rng s)),
                  entry_timestamp = t_store t\<rparr>),
       rng = snd (generateMockIsochrones (req_locations req) (req_range req) (req_id req)
                 (Some tr) (t_generate t) (rng s))\<rparr>)"
proof -
  let ?key = "getCacheKey ns (transport_name tr) (req_locations req) (req_range req)"
  have g: "getFromCache ?key (t_lookup t) (cache s) = (None, (cache s)(?key := None))"
    using assms(2) getFromCache_None_cases [OF assms(2)] by (simp add: prod_eq_iff)
  show ?thesis
    using assms(1)
    by (simp add: isochrones_post_def g setCache_def split: prod.splits)
qed

lemma isochrones_post_hit_headers:
  "valid_request req \<Longrightarrow>
   cache s (getCacheKey ns (transport_name tr) (req_locations req) (req_range req)) = Some e \<Longrightarrow>
   t_lookup t - entry_timestamp e < CACHE_TTL \<Longrightarrow>
   status (fst (isochrones_post ns tr req t s)) = 200 \<and>
   header_of (fst (isochrones_post ns tr req t s)) ''Cache-Control'' = None"
  by (simp add: isochrones_post_hit c_json_def header_of_def)

section \<open>The claims about the cache and the handlers\<close>

text \<open>
  Claim C5. Two calls of the same route with the same locations and range: the first
  misses the cache and stores its response at time \<open>t_store t1\<close>; the second looks
  the key up less than \<open>CACHE_TTL\<close> later. The second call answers the body of the
  first, with the \<open>timestamp\<close> of the first generation, and leaves the state as it was:
  the random source is not read, so nothing is generated again.
\<close>

theorem cached_response_within_ttl:
  assumes "valid_request req1" and "valid_request req2"
    and "req_locations req2 = req_locations req1" and "req_range req2 = req_range req1"
    and "fst (getFromCache (getCacheKey ns (transport_name tr) (req_locations req1)
                (req_range req1)) (t_lookup t1) (cache s)) = None"
    and "isochrones_post ns tr req1 t1 s = (r1, s1)"
    and "t_lookup t2 - t_store t1 < CACHE_TTL"
  shows "\<exists>resp. body r1 = Json resp \<and>
           metadata_timestamp (metadata resp) = t_generate t1 \<and>
           isochrones_post ns tr req2 t2 s1 = (c_json 200 [] (Json resp), s1)"
proof -
  let ?key = "getCacheKey ns (transport_name tr) (req_locations req1) (req_range req1)"
  let ?resp = "fst (generateMockIsochrones (req_locations req1) (req_range req1)
                 (req_id req1) (Some tr) (t_generate t1) (rng s))"
  note m = isochrones_post_miss [OF assms(1) assms(5)]
  from m assms(6) have r1: "r1 = c_json 200 [(''Cache-Control'', ''public, max-age=3600'')]
                               (Json ?resp)"
    by simp
  from m assms(6) have s1: "cache s1 ?key =
      Some \<lparr>entry_data = ?resp, entry_timestamp = t_store t1\<rparr>"
    by auto
  have "isochrones_post ns tr req2 t2 s1 = (c_json 200 [] (Json ?resp), s1)"
    using isochrones_post_hit [OF assms(2), of s1 ns tr
            "\<lparr>entry_data = ?resp, entry_timestamp = t_store t1\<rparr>" t2]
          s1 assms(3,4,7)
    by simp
  then show ?thesis
    using r1 by (simp add: c_json_def generateMockIsochrones_metadata)
qed

theorem cached_response_within_ttl_witness:
  "\<exists>resp. body (fst (isochrones_post (\<lambda>x. ''0'') FootWalking (\<lparr>req_locations = [(- 0.1, 51.5)], req_range = [500], req_id = Some ''m1''\<rparr>) (\<lparr>t_lookup = 0, t_generate = 10, t_store = 20\<rparr>) (\<lparr>cache = Map.empty, rng = (\<lambda>n. 1 / 2)\<rparr>))) = Json resp \<and>
     metadata_timestamp (metadata resp) = 10 \<and>
     isochrones_post (\<lambda>x. ''0'') FootWalking (\<lparr>req_locations = [(- 0.1, 51.5)], req_range = [500], req_id = None\<rparr>) (\<lparr>t_lookup = 3600019, t_generate = 3600019, t_store = 3600019\<rparr>)
       (snd (isochrones_post (\<lambda>x. ''0'') FootWalking (\<lparr>req_locations = [(- 0.1, 51.5)], req_range = [500], req_id = Some ''m1''\<rparr>) (\<lparr>t_lookup = 0, t_generate = 10, t_store = 20\<rparr>) (\<lparr>cache = Map.empty, rng = (\<lambda>n. 1 / 2)\<rparr>))) =
     (c_json 200 [] (Json resp), snd (isochrones_post (\<lambda>x. ''0'') FootWalking (\<lparr>req_locations = [(- 0.1, 51.5)], req_range = [500], req_id = Some ''m1''\<rparr>) (\<lparr>t_lookup = 0, t_generate = 10, t_store = 20\<rparr>) (\<lparr>cache = Map.empty, rng = (\<lambda>n. 1 / 2)\<rparr>)))"
  using cached_response_within_ttl [of "\<lparr>req_locations = [(- 0.1, 51.5)], req_range = [500], req_id = Some ''m1''\<rparr>" "\<lparr>req_locations = [(- 0.1, 51.5)], req_range = [500], req_id = None\<rparr>" "(\<lambda>x. ''0'')" FootWalking "\<lparr>t_lookup = 0, t_generate = 10, t_store = 20\<rparr>" "\<lparr>cache = Map.empty, rng = (\<lambda>n. 1 / 2)\<rparr>"
          "fst (isochrones_post (\<lambda>x. ''0'') FootWalking (\<lparr>req_locations = [(- 0.1, 51.5)], req_range = [500], req_id = Some ''m1''\<rparr>) (\<lparr>t_lookup = 0, t_generate = 10, t_store = 20\<rparr>) (\<lparr>cache = Map.empty, rng = (\<lambda>n. 1 / 2)\<rparr>))"
          "snd (isochrones_post (\<lambda>x. ''0'') FootWalking (\<lparr>req_locations = [(- 0.1, 51.5)], req_range = [500], req_id = Some ''m1''\<rparr>) (\<lparr>t_lookup = 0, t_generate = 10, t_store = 20\<rparr>) (\<lparr>cache = Map.empty, rng = (\<lambda>n. 1 / 2)\<rparr>))" "\<lparr>t_lookup = 3600019, t_generate = 3600019, t_store = 3600019\<rparr>"]
  by (simp add: valid_request_def getFromCache_def CACHE_TTL_def)

text \<open>
  Claim C6. For a stored entry, a lookup at time \<open>now\<close> finds nothing exactly when
  \<open>now - createdAt \<ge> TTL\<close>, with a TTL of 3600 seconds; the expired entry is deleted
  by that lookup, and no lookup touches another key or deletes an entry that is still
  fresh, so nothing is swept. A call of a handler whose key has expired generates a
  fresh response whose \<open>timestamp\<close> is the time of this generation and stores it; with
  a clock that does not run backwards the new \<open>timestamp\<close> differs from the old one.
\<close>

theorem expiry_lazy_removal:
  fixes t :: clock_readings and s :: server_state
  assumes "c key = Some e"
  shows "CACHE_TTL = 3600 * 1000 \<and>
         (fst (getFromCache key now c) = None \<longleftrightarrow> CACHE_TTL \<le> now - entry_timestamp e) \<and>
         (CACHE_TTL \<le> now - entry_timestamp e \<longrightarrow>
            snd (getFromCache key now c) key = None) \<and>
         (\<forall>k. k \<noteq> key \<longrightarrow> snd (getFromCache key now c) k = c k) \<and>
         (now - entry_timestamp e < CACHE_TTL \<longrightarrow> snd (getFromCache key now c) = c) \<and>
         (valid_request req \<and>
          key = getCacheKey ns (transport_name tr) (req_locations req) (req_range req) \<and>
          cache s = c \<and> now = t_lookup t \<and> CACHE_TTL \<le> now - entry_timestamp e \<longrightarrow>
            (let fresh = generateMockIsochrones (req_locations req) (req_range req)
                           (req_id req) (Some tr) (t_generate t) (rng s)
             in isochrones_post ns tr req t s =
                  (c_json 200 [(''Cache-Control'', ''public, max-age=3600'')]
                     (Json (fst fresh)),
                   \<lparr>cache = c(key \<mapsto> \<lparr>entry_data = fst fresh,
                                         entry_timestamp = t_store t\<rparr>),
                    rng = snd fresh\<rparr>) \<and>
                metadata_timestamp (metadata (fst fresh)) = t_generate t \<and>
                (metadata_timestamp (metadata (entry_data e)) \<le> entry_timestamp e \<and>
                 t_lookup t \<le> t_generate t \<longrightarrow>
                   metadata_timestamp (metadata (fst fresh)) \<noteq>
                   metadata_timestamp (metadata (entry_data e)))))"
proof (intro conjI allI impI)
  show "CACHE_TTL = 3600 * 1000" by (simp add: CACHE_TTL_def)
  show "(fst (getFromCache key now c) = None) = (CACHE_TTL \<le> now - entry_timestamp e)"
    using assms by (auto simp: getFromCache_def)
  show "CACHE_TTL \<le> now - entry_timestamp e \<Longrightarrow> snd (getFromCache key now c) key = None"
    using assms by (simp add: getFromCache_def)
  show "\<And>k. k \<noteq> key \<Longrightarrow> snd (getFromCache key now c) k = c k"
    using assms by (simp add: getFromCache_def)
  show "now - entry_timestamp e < CACHE_TTL \<Longrightarrow> snd (getFromCache key now c) = c"
    using assms by (simp add: getFromCache_def)
next
  assume h: "valid_request req \<and>
            key = getCacheKey ns (transport_name tr) (req_locations req) (req_range req) \<and>
            cache s = c \<and> now = t_lookup t \<and> CACHE_TTL \<le> now - entry_timestamp e"
  then have miss: "fst (getFromCache (getCacheKey ns (transport_name tr) (req_locations req)
                (req_range req)) (t_lookup t) (cache s)) = None"
    using assms by (auto simp: getFromCache_def)
  have pos: "0 < CACHE_TTL" by (simp add: CACHE_TTL_def)
  show "let fresh = generateMockIsochrones (req_locations req) (req_range req)
                           (req_id req) (Some tr) (t_generate t) (rng s)
             in isochrones_post ns tr req t s =
                  (c_json 200 [(''Cache-Control'', ''public, max-age=3600'')]
                     (Json (fst fresh)),
                   \<lparr>cache = c(key \<mapsto> \<lparr>entry_data = fst fresh,
                                         entry_timestamp = t_store t\<rparr>),
                    rng = snd fresh\<rparr>) \<and>
                metadata_timestamp (metadata (fst fresh)) = t_generate t \<and>
                (metadata_timestamp (metadata (entry_data e)) \<le> entry_timestamp e \<and>
                 t_lookup t \<le> t_generate t \<longrightarrow>
                   metadata_timestamp (metadata (fst fresh)) \<noteq>
                   metadata_timestamp (metadata (entry_data e)))"
    using isochrones_post_miss [of req ns tr t s, OF _ miss] h pos
    by (simp add: Let_def generateMockIsochrones_metadata)
qed

theorem expiry_lazy_removal_witness:
  "fst (getFromCache (getCacheKey (\<lambda>x. ''0'') ''foot-walking'' [(- 0.1, 51.5)] [500]) 3600020 [(getCacheKey (\<lambda>x. ''0'') ''foot-walking'' [(- 0.1, 51.5)] [500]) \<mapsto> (\<lparr>entry_data = fst (generateMockIsochrones [(- 0.1, 51.5)] [500] None (Some FootWalking) 10 (\<lambda>n. 1 / 2)), entry_timestamp = 20\<rparr>)]) = None \<and>
   snd (getFromCache (getCacheKey (\<lambda>x. ''0'') ''foot-walking'' [(- 0.1, 51.5)] [500]) 3600020 [(getCacheKey (\<lambda>x. ''0'') ''foot-walking'' [(- 0.1, 51.5)] [500]) \<mapsto> (\<lparr>entry_data = fst (generateMockIsochrones [(- 0.1, 51.5)] [500] None (Some FootWalking) 10 (\<lambda>n. 1 / 2)), entry_timestamp = 20\<rparr>)]) (getCacheKey (\<lambda>x. ''0'') ''foot-walking'' [(- 0.1, 51.5)] [500]) = None \<and>
   (\<exists>resp. body (fst (isochrones_post (\<lambda>x. ''0'') FootWalking (\<lparr>req_locations = [(- 0.1, 51.5)], req_range = [500], req_id = Some ''m1''\<rparr>) (\<lparr>t_lookup = 3600020, t_generate = 3600021, t_store = 3600022\<rparr>)
                       \<lparr>cache = [(getCacheKey (\<lambda>x. ''0'') ''foot-walking'' [(- 0.1, 51.5)] [500]) \<mapsto> (\<lparr>entry_data = fst (generateMockIsochrones [(- 0.1, 51.5)] [500] None (Some FootWalking) 10 (\<lambda>n. 1 / 2)), entry_timestamp = 20\<rparr>)], rng = (\<lambda>n. 1 / 3)\<rparr>)) = Json resp \<and>
           metadata_timestamp (metadata resp) = 3600021 \<and>
           metadata_timestamp (metadata resp) \<noteq>
             metadata_timestamp (metadata (entry_data (\<lparr>entry_data = fst (generateMockIsochrones [(- 0.1, 51.5)] [500] None (Some FootWalking) 10 (\<lambda>n. 1 / 2)), entry_timestamp = 20\<rparr>))))"
proof -
  note h = expiry_lazy_removal [of "[(getCacheKey (\<lambda>x. ''0'') ''foot-walking'' [(- 0.1, 51.5)] [500]) \<mapsto> (\<lparr>entry_data = fst (generateMockIsochrones [(- 0.1, 51.5)] [500] None (Some FootWalking) 10 (\<lambda>n. 1 / 2)), entry_timestamp = 20\<rparr>)]" "getCacheKey (\<lambda>x. ''0'') ''foot-walking'' [(- 0.1, 51.5)] [500]" "\<lparr>entry_data = fst (generateMockIsochrones [(- 0.1, 51.5)] [500] None (Some FootWalking) 10 (\<lambda>n. 1 / 2)), entry_timestamp = 20\<rparr>" 3600020 "\<lparr>req_locations = [(- 0.1, 51.5)], req_range = [500], req_id = Some ''m1''\<rparr>"
             "(\<lambda>x. ''0'')" FootWalking "\<lparr>cache = [(getCacheKey (\<lambda>x. ''0'') ''foot-walking'' [(- 0.1, 51.5)] [500]) \<mapsto> (\<lparr>entry_data = fst (generateMockIsochrones [(- 0.1, 51.5)] [500] None (Some FootWalking) 10 (\<lambda>n. 1 / 2)), entry_timestamp = 20\<rparr>)], rng = (\<lambda>n. 1 / 3)\<rparr>"
             "\<lparr>t_lookup = 3600020, t_generate = 3600021, t_store = 3600022\<rparr>"]
  have ttl: "CACHE_TTL \<le> 3600020 - entry_timestamp (\<lparr>entry_data = fst (generateMockIsochrones [(- 0.1, 51.5)] [500] None (Some FootWalking) 10 (\<lambda>n. 1 / 2)), entry_timestamp = 20\<rparr>)"
    by (simp add: CACHE_TTL_def)
  have old: "metadata_timestamp (metadata (entry_data (\<lparr>entry_data = fst (generateMockIsochrones [(- 0.1, 51.5)] [500] None (Some FootWalking) 10 (\<lambda>n. 1 / 2)), entry_timestamp = 20\<rparr>))) = 10"
    by (simp add: generateMockIsochrones_metadata)
  have v: "valid_request (\<lparr>req_locations = [(- 0.1, 51.5)], req_range = [500], req_id = Some ''m1''\<rparr>)"
    by (simp add: valid_request_def)
  from h ttl have a: "fst (getFromCache (getCacheKey (\<lambda>x. ''0'') ''foot-walking'' [(- 0.1, 51.5)] [500]) 3600020 [(getCacheKey (\<lambda>x. ''0'') ''foot-walking'' [(- 0.1, 51.5)] [500]) \<mapsto> (\<lparr>entry_data = fst (generateMockIsochrones [(- 0.1, 51.5)] [500] None (Some FootWalking) 10 (\<lambda>n. 1 / 2)), entry_timestamp = 20\<rparr>)]) = None"
    by simp
  from h ttl have b: "snd (getFromCache (getCacheKey (\<lambda>x. ''0'') ''foot-walking'' [(- 0.1, 51.5)] [500]) 3600020 [(getCacheKey (\<lambda>x. ''0'') ''foot-walking'' [(- 0.1, 51.5)] [500]) \<mapsto> (\<lparr>entry_data = fst (generateMockIsochrones [(- 0.1, 51.5)] [500] None (Some FootWalking) 10 (\<lambda>n. 1 / 2)), entry_timestamp = 20\<rparr>)]) (getCacheKey (\<lambda>x. ''0'') ''foot-walking'' [(- 0.1, 51.5)] [500]) = None"
    by simp
  from h ttl v old have c: "body (fst (isochrones_post (\<lambda>x. ''0'') FootWalking (\<lparr>req_locations = [(- 0.1, 51.5)], req_range = [500], req_id = Some ''m1''\<rparr>) (\<lparr>t_lookup = 3600020, t_generate = 3600021, t_store = 3600022\<rparr>)
                       \<lparr>cache = [(getCacheKey (\<lambda>x. ''0'') ''foot-walking'' [(- 0.1, 51.5)] [500]) \<mapsto> (\<lparr>entry_data = fst (generateMockIsochrones [(- 0.1, 51.5)] [500] None (Some FootWalking) 10 (\<lambda>n. 1 / 2)), entry_timestamp = 20\<rparr>)], rng = (\<lambda>n. 1 / 3)\<rparr>)) =
        Json (fst (generateMockIsochrones (req_locations (\<lparr>req_locations = [(- 0.1, 51.5)], req_range = [500], req_id = Some ''m1''\<rparr>)) (req_range (\<lparr>req_locations = [(- 0.1, 51.5)], req_range = [500], req_id = Some ''m1''\<rparr>))
                (req_id (\<lparr>req_locations = [(- 0.1, 51.5)], req_range = [500], req_id = Some ''m1''\<rparr>)) (Some FootWalking) 3600021 (\<lambda>n. 1 / 3)))"
    by (simp add: Let_def c_json_def)
  from a b c old show ?thesis
    by (simp add: generateMockIsochrones_metadata)
qed

text \<open>
  Claim C8. A request with no location, with no range value, or with a range value
  that is zero or negative is answered with status 400 by the validator; the state of
  the server after the call is the state before it: no cache entry is written and the
  random source is not read, so nothing was generated.
\<close>

theorem invalid_request_rejected:
  assumes "req_locations req = [] \<or> req_range req = [] \<or> (\<exists>r \<in> set (req_range req). r \<le> 0)"
  shows "status (fst (isochrones_post ns tr req t s)) = 400 \<and>
         body (fst (isochrones_post ns tr req t s)) = ValidationFailure \<and>
         snd (isochrones_post ns tr req t s) = s"
proof -
  have "\<not> valid_request req"
    using assms by (fastforce simp: valid_request_def list_all_iff)
  then show ?thesis
    by (simp add: isochrones_post_invalid c_json_def)
qed

theorem invalid_request_rejected_witness:
  "status (fst (isochrones_post (\<lambda>x. ''0'') DrivingCar
            \<lparr>req_locations = [(- 0.1, 51.5)], req_range = [500, 0], req_id = None\<rparr>
            (\<lparr>t_lookup = 0, t_generate = 10, t_store = 20\<rparr>) (\<lparr>cache = Map.empty, rng = (\<lambda>n. 1 / 2)\<rparr>))) = 400 \<and>
   snd (isochrones_post (\<lambda>x. ''0'') DrivingCar
            \<lparr>req_locations = [(- 0.1, 51.5)], req_range = [500, 0], req_id = None\<rparr>
            (\<lparr>t_lookup = 0, t_generate = 10, t_store = 20\<rparr>) (\<lparr>cache = Map.empty, rng = (\<lambda>n. 1 / 2)\<rparr>)) = (\<lparr>cache = Map.empty, rng = (\<lambda>n. 1 / 2)\<rparr>)"
  using invalid_request_rejected [of
          "\<lparr>req_locations = [(- 0.1, 51.5)], req_range = [500, 0], req_id = None\<rparr>"
          "(\<lambda>x. ''0'')" DrivingCar "\<lparr>t_lookup = 0, t_generate = 10, t_store = 20\<rparr>" "\<lparr>cache = Map.empty, rng = (\<lambda>n. 1 / 2)\<rparr>"]
  by simp

text \<open>
  Claim C9 says that every response with status 200 carries
  \<^verbatim>\<open>Cache-Control: public, max-age=3600\<close>. The handlers set the header after the cache
  lookup, on the path that generates; the path that answers from the cache returns
  before. Here the same request is sent twice within the hour: the first response has
  the header, the second has status 200 and no such header.
\<close>

theorem second_response_lacks_cache_control:
  "status (fst (isochrones_post ns FootWalking (\<lparr>req_locations = [(- 0.1, 51.5)], req_range = [500], req_id = Some ''m1''\<rparr>) (\<lparr>t_lookup = 0, t_generate = 10, t_store = 20\<rparr>) (\<lparr>cache = Map.empty, rng = (\<lambda>n. 1 / 2)\<rparr>))) = 200 \<and>
   header_of (fst (isochrones_post ns FootWalking (\<lparr>req_locations = [(- 0.1, 51.5)], req_range = [500], req_id = Some ''m1''\<rparr>) (\<lparr>t_lookup = 0, t_generate = 10, t_store = 20\<rparr>) (\<lparr>cache = Map.empty, rng = (\<lambda>n. 1 / 2)\<rparr>))) ''Cache-Control'' =
     Some ''public, max-age=3600'' \<and>
   status (fst (isochrones_post ns FootWalking (\<lparr>req_locations = [(- 0.1, 51.5)], req_range = [500], req_id = Some ''m1''\<rparr>) (\<lparr>t_lookup = 3600019, t_generate = 3600019, t_store = 3600019\<rparr>)
                 (snd (isochrones_post ns FootWalking (\<lparr>req_locations = [(- 0.1, 51.5)], req_range = [500], req_id = Some ''m1''\<rparr>) (\<lparr>t_lookup = 0, t_generate = 10, t_store = 20\<rparr>) (\<lparr>cache = Map.empty, rng = (\<lambda>n. 1 / 2)\<rparr>))))) = 200 \<and>
   header_of (fst (isochrones_post ns FootWalking (\<lparr>req_locations = [(- 0.1, 51.5)], req_range = [500], req_id = Some ''m1''\<rparr>) (\<lparr>t_lookup = 3600019, t_generate = 3600019, t_store = 3600019\<rparr>)
                 (snd (isochrones_post ns FootWalking (\<lparr>req_locations = [(- 0.1, 51.5)], req_range = [500], req_id = Some ''m1''\<rparr>) (\<lparr>t_lookup = 0, t_generate = 10, t_store = 20\<rparr>) (\<lparr>cache = Map.empty, rng = (\<lambda>n. 1 / 2)\<rparr>))))) ''Cache-Control'' = None"
proof -
  have v: "valid_request (\<lparr>req_locations = [(- 0.1, 51.5)], req_range = [500], req_id = Some ''m1''\<rparr>)"
    by (simp add: valid_request_def)
  have miss: "fst (getFromCache (getCacheKey ns (transport_name FootWalking)
                     (req_locations (\<lparr>req_locations = [(- 0.1, 51.5)], req_range = [500], req_id = Some ''m1''\<rparr>)) (req_range (\<lparr>req_locations = [(- 0.1, 51.5)], req_range = [500], req_id = Some ''m1''\<rparr>))) (t_lookup (\<lparr>t_lookup = 0, t_generate = 10, t_store = 20\<rparr>)) (cache (\<lparr>cache = Map.empty, rng = (\<lambda>n. 1 / 2)\<rparr>))) = None"
    by (simp add: getFromCache_def)
  note m = isochrones_post_miss [OF v miss]
  have first: "status (fst (isochrones_post ns FootWalking (\<lparr>req_locations = [(- 0.1, 51.5)], req_range = [500], req_id = Some ''m1''\<rparr>) (\<lparr>t_lookup = 0, t_generate = 10, t_store = 20\<rparr>) (\<lparr>cache = Map.empty, rng = (\<lambda>n. 1 / 2)\<rparr>))) = 200 \<and>
     header_of (fst (isochrones_post ns FootWalking (\<lparr>req_locations = [(- 0.1, 51.5)], req_range = [500], req_id = Some ''m1''\<rparr>) (\<lparr>t_lookup = 0, t_generate = 10, t_store = 20\<rparr>) (\<lparr>cache = Map.empty, rng = (\<lambda>n. 1 / 2)\<rparr>))) ''Cache-Control'' =
       Some ''public, max-age=3600''"
    unfolding m by (simp add: c_json_def header_of_def)
  let ?e = "\<lparr>entry_data = fst (generateMockIsochrones (req_locations (\<lparr>req_locations = [(- 0.1, 51.5)], req_range = [500], req_id = Some ''m1''\<rparr>)) (req_range (\<lparr>req_locations = [(- 0.1, 51.5)], req_range = [500], req_id = Some ''m1''\<rparr>))
                              (req_id (\<lparr>req_locations = [(- 0.1, 51.5)], req_range = [500], req_id = Some ''m1''\<rparr>)) (Some FootWalking) (t_generate (\<lparr>t_lookup = 0, t_generate = 10, t_store = 20\<rparr>)) (rng (\<lparr>cache = Map.empty, rng = (\<lambda>n. 1 / 2)\<rparr>))),
            entry_timestamp = t_store (\<lparr>t_lookup = 0, t_generate = 10, t_store = 20\<rparr>)\<rparr>"
  have stored: "cache (snd (isochrones_post ns FootWalking (\<lparr>req_locations = [(- 0.1, 51.5)], req_range = [500], req_id = Some ''m1''\<rparr>) (\<lparr>t_lookup = 0, t_generate = 10, t_store = 20\<rparr>) (\<lparr>cache = Map.empty, rng = (\<lambda>n. 1 / 2)\<rparr>)))
                  (getCacheKey ns (transport_name FootWalking) (req_locations (\<lparr>req_locations = [(- 0.1, 51.5)], req_range = [500], req_id = Some ''m1''\<rparr>))
                     (req_range (\<lparr>req_locations = [(- 0.1, 51.5)], req_range = [500], req_id = Some ''m1''\<rparr>))) = Some ?e"
    unfolding m by simp
  have fresh: "t_lookup (\<lparr>t_lookup = 3600019, t_generate = 3600019, t_store = 3600019\<rparr>) - entry_timestamp ?e < CACHE_TTL"
    by (simp add: CACHE_TTL_def)
  have second: "status (fst (isochrones_post ns FootWalking (\<lparr>req_locations = [(- 0.1, 51.5)], req_range = [500], req_id = Some ''m1''\<rparr>) (\<lparr>t_lookup = 3600019, t_generate = 3600019, t_store = 3600019\<rparr>)
                 (snd (isochrones_post ns FootWalking (\<lparr>req_locations = [(- 0.1, 51.5)], req_range = [500], req_id = Some ''m1''\<rparr>) (\<lparr>t_lookup = 0, t_generate = 10, t_store = 20\<rparr>) (\<lparr>cache = Map.empty, rng = (\<lambda>n. 1 / 2)\<rparr>))))) = 200 \<and>
     header_of (fst (isochrones_post ns FootWalking (\<lparr>req_locations = [(- 0.1, 51.5)], req_range = [500], req_id = Some ''m1''\<rparr>) (\<lparr>t_lookup = 3600019, t_generate = 3600019, t_store = 3600019\<rparr>)
                 (snd (isochrones_post ns FootWalking (\<lparr>req_locations = [(- 0.1, 51.5)], req_range = [500], req_id = Some ''m1''\<rparr>) (\<lparr>t_lookup = 0, t_generate = 10, t_store = 20\<rparr>) (\<lparr>cache = Map.empty, rng = (\<lambda>n. 1 / 2)\<rparr>))))) ''Cache-Control'' = None"
    using v stored fresh by (rule isochrones_post_hit_headers)
  from first second show ?thesis by simp
qed

text \<open>
  Claim C10. \<^verbatim>\<open>getCacheKey\<close> takes the transport, the locations and the range, and no
  \<^verbatim>\<open>id\<close>. When a request misses the cache and a second request with the same locations
  and range, and any \<^verbatim>\<open>id\<close> or none, arrives within the TTL, the second response
  carries the \<^verbatim>\<open>id\<close> of the first request in \<^verbatim>\<open>metadata.id\<close> and in
  \<^verbatim>\<open>metadata.query.id\<close>.
\<close>

theorem cache_hit_echoes_first_id:
  assumes "valid_request req1" and "valid_request req2"
    and "req_locations req2 = req_locations req1" and "req_range req2 = req_range req1"
    and "fst (getFromCache (getCacheKey ns (transport_name tr) (req_locations req1)
                (req_range req1)) (t_lookup t1) (cache s)) = None"
    and "t_lookup t2 - t_store t1 < CACHE_TTL"
  shows "\<exists>resp. body (fst (isochrones_post ns tr req2 t2
                       (snd (isochrones_post ns tr req1 t1 s)))) = Json resp \<and>
           metadata_id (metadata resp) = req_id req1 \<and>
           query_id (query (metadata resp)) = req_id req1"
proof -
  let ?key = "getCacheKey ns (transport_name tr) (req_locations req1) (req_range req1)"
  let ?resp = "fst (generateMockIsochrones (req_locations req1) (req_range req1)
                 (req_id req1) (Some tr) (t_generate t1) (rng s))"
  let ?s1 = "snd (isochrones_post ns tr req1 t1 s)"
  note m = isochrones_post_miss [OF assms(1) assms(5)]
  from m have s1: "cache ?s1 ?key = Some \<lparr>entry_data = ?resp, entry_timestamp = t_store t1\<rparr>"
    by simp
  have "isochrones_post ns tr req2 t2 ?s1 = (c_json 200 [] (Json ?resp), ?s1)"
    using isochrones_post_hit [OF assms(2), of ?s1 ns tr
            "\<lparr>entry_data = ?resp, entry_timestamp = t_store t1\<rparr>" t2]
          s1 assms(3,4,6)
    by simp
  then show ?thesis
    by (simp add: c_json_def generateMockIsochrones_metadata)
qed

theorem cache_hit_echoes_first_id_witness:
  "req_id (\<lparr>req_locations = [(- 0.1, 51.5)], req_range = [500], req_id = None\<rparr>) \<noteq> req_id (\<lparr>req_locations = [(- 0.1, 51.5)], req_range = [500], req_id = Some ''m1''\<rparr>) \<and>
   (\<exists>resp. body (fst (isochrones_post (\<lambda>x. ''0'') FootWalking (\<lparr>req_locations = [(- 0.1, 51.5)], req_range = [500], req_id = None\<rparr>) (\<lparr>t_lookup = 3600019, t_generate = 3600019, t_store = 3600019\<rparr>)
                       (snd (isochrones_post (\<lambda>x. ''0'') FootWalking (\<lparr>req_locations = [(- 0.1, 51.5)], req_range = [500], req_id = Some ''m1''\<rparr>) (\<lparr>t_lookup = 0, t_generate = 10, t_store = 20\<rparr>) (\<lparr>cache = Map.empty, rng = (\<lambda>n. 1 / 2)\<rparr>))))) = Json resp \<and>
           metadata_id (metadata resp) = Some ''m1'' \<and>
           query_id (query (metadata resp)) = Some ''m1'')"
  using cache_hit_echoes_first_id [of "\<lparr>req_locations = [(- 0.1, 51.5)], req_range = [500], req_id = Some ''m1''\<rparr>" "\<lparr>req_locations = [(- 0.1, 51.5)], req_range = [500], req_id = None\<rparr>" "(\<lambda>x. ''0'')" FootWalking "\<lparr>t_lookup = 0, t_generate = 10, t_store = 20\<rparr>" "\<lparr>cache = Map.empty, rng = (\<lambda>n. 1 / 2)\<rparr>" "\<lparr>t_lookup = 3600019, t_generate = 3600019, t_store = 3600019\<rparr>"]
  by (simp add: valid_request_def getFromCache_def CACHE_TTL_def)

section \<open>Properties of the overlap pass\<close>

declare inner_loop.simps [simp del] outer_loop.simps [simp del]

lemma append_to_Nil [simp]: "append_to [] r = r"
  by (simp add: append_to_def split: sum.splits)

lemma append_to_append_to [simp]: "append_to xs (append_to ys r) = append_to (xs @ ys) r"
  by (simp add: append_to_def split: sum.splits)

lemma append_to_Inr [simp]: "append_to xs (Inr ys) = Inr (xs @ ys)"
  by (simp add: append_to_def)

lemma append_to_Inl [simp]: "append_to xs (Inl e) = Inl e"
  by (simp add: append_to_def)

lemma collect_append:
  "collect (xs @ ys) =
     (case collect xs of Inl e \<Rightarrow> Inl e | Inr us \<Rightarrow> append_to us (collect ys))"
proof (induction xs rule: collect.induct)
  case (4 y rest)
  then show ?case by (simp split: sum.splits)
qed simp_all

lemma collect_all_None: "\<forall>x \<in> set xs. x = Inr None \<Longrightarrow> collect xs = Inr []"
  by (induction xs) auto

lemma inner_loop_collect:
  "j \<le> length results \<Longrightarrow>
   inner_loop P I ns results dataI j acc =
     append_to acc (collect (map (\<lambda>b. pair_result P I ns \<lparr>q_status = Success, q_data = Some dataI\<rparr> b)
                               (drop j results)))"
proof (induction "length results - j" arbitrary: j acc)
  case 0
  then show ?case by (subst inner_loop.simps) simp
next
  case (Suc d)
  then have lt: "j < length results" and d: "d = length results - Suc j"
    and le: "Suc j \<le> length results" by simp_all
  note ih = Suc.hyps(1) [OF d le]
  have dr: "drop j results = results ! j # drop (Suc j) results"
    using lt by (simp add: Cons_nth_drop_Suc)
  show ?case
  proof (cases "q_data (results ! j)")
    case None
    then show ?thesis
      using lt by (subst inner_loop.simps) (simp add: ih dr pair_result_def)
  next
    case (Some dataJ)
    show ?thesis
    proof (cases "intersect_pair P I ns dataI dataJ")
      case (Inl e)
      then show ?thesis
        using lt Some by (subst inner_loop.simps) (simp add: dr pair_result_def)
    next
      case (Inr r)
      then show ?thesis
        using lt Some
        by (subst inner_loop.simps) (cases r; simp add: ih dr pair_result_def)
    qed
  qed
qed

lemma pair_result_data:
  "q_data a = Some dataI \<Longrightarrow>
   pair_result P I ns \<lparr>q_status = Success, q_data = Some dataI\<rparr> b = pair_result P I ns a b"
  by (simp add: pair_result_def)

lemma outer_loop_collect:
  "i \<le> length results \<Longrightarrow>
   outer_loop P I ns results i acc =
     append_to acc (collect (map (\<lambda>(a, b). pair_result P I ns a b)
                               (pairs_of (drop i results))))"
proof (induction "length results - i" arbitrary: i acc)
  case 0
  then show ?case by (subst outer_loop.simps) simp
next
  case (Suc d)
  then have lt: "i < length results" and d: "d = length results - Suc i"
    and le: "Suc i \<le> length results" by simp_all
  note ih = Suc.hyps(1) [OF d le]
  have dr: "drop i results = results ! i # drop (Suc i) results"
    using lt by (simp add: Cons_nth_drop_Suc)
  let ?row = "map (\<lambda>b. pair_result P I ns (results ! i) b) (drop (Suc i) results)"
  let ?rest = "map (\<lambda>(a, b). pair_result P I ns a b) (pairs_of (drop (Suc i) results))"
  have split: "map (\<lambda>(a, b). pair_result P I ns a b) (pairs_of (drop i results)) = ?row @ ?rest"
    by (simp add: dr comp_def)
  show ?case
  proof (cases "q_data (results ! i)")
    case None
    then have "collect ?row = Inr []"
      by (intro collect_all_None) (simp add: pair_result_def)
    then show ?thesis
      using lt None
      by (subst outer_loop.simps) (simp add: ih split collect_append)
  next
    case (Some dataI)
    have row: "map (\<lambda>b. pair_result P I ns \<lparr>q_status = Success, q_data = Some dataI\<rparr> b)
                 (drop (Suc i) results) = ?row"
      using Some by (simp add: pair_result_data)
    show ?thesis
      using lt Some
      by (subst outer_loop.simps)
         (simp add: ih split collect_append inner_loop_collect [OF le] row
               split: sum.splits)
  qed
qed

lemma combine_collect:
  "combine P I ns results =
     collect (map (\<lambda>(a, b). pair_result P I ns a b) (pairs_of results))"
  by (simp add: combine_def outer_loop_collect)

lemma length_pairs_of: "length (pairs_of xs) = length xs choose 2"
  by (induction xs) (simp_all add: numeral_2_eq_2)

lemma index_pairs_Suc:
  "index_pairs (Suc n) =
     map (Pair 0) [Suc 0..<Suc n] @ map (\<lambda>(i, j). (Suc i, Suc j)) (index_pairs n)"
proof -
  have A: "[0..<Suc n] = 0 # map Suc [0..<n]"
    by (simp add: upt_conv_Cons map_Suc_upt del: upt_Suc)
  have C: "map (Pair (Suc i)) [Suc (Suc i)..<Suc n] =
           map (\<lambda>(i, j). (Suc i, Suc j)) (map (Pair i) [Suc i..<n])" for i
    by (simp add: comp_def del: upt_Suc flip: map_Suc_upt)
  have "concat (map (\<lambda>i. map (Pair i) [Suc i..<Suc n]) (map Suc [0..<n])) =
        map (\<lambda>(i, j). (Suc i, Suc j)) (concat (map (\<lambda>i. map (Pair i) [Suc i..<n]) [0..<n]))"
    unfolding map_concat map_map comp_def C ..
  then show ?thesis
    unfolding index_pairs_def A by simp
qed

lemma set_index_pairs: "set (index_pairs n) = {(i, j). i < j \<and> j < n}"
proof (induction n)
  case 0
  show ?case by (simp add: index_pairs_def)
next
  case (Suc n)
  have "set (index_pairs (Suc n)) =
        Pair 0 ` {Suc 0..<Suc n} \<union> (\<lambda>(i, j). (Suc i, Suc j)) ` {(i, j). i < j \<and> j < n}"
    unfolding index_pairs_Suc using Suc by (simp del: upt_Suc)
  also have "\<dots> = {(i, j). i < j \<and> j < Suc n}"
  proof (intro set_eqI iffI)
    fix p
    assume "p \<in> Pair 0 ` {Suc 0..<Suc n} \<union>
                (\<lambda>(i, j). (Suc i, Suc j)) ` {(i, j). i < j \<and> j < n}"
    then show "p \<in> {(i, j). i < j \<and> j < Suc n}" by auto
  next
    fix p
    assume "p \<in> {(i, j). i < j \<and> j < Suc n}"
    then obtain i j where p: "p = (i, j)" and ij: "i < j" "j < Suc n" by auto
    show "p \<in> Pair 0 ` {Suc 0..<Suc n} \<union>
                (\<lambda>(i, j). (Suc i, Suc j)) ` {(i, j). i < j \<and> j < n}"
    proof (cases i)
      case 0
      then show ?thesis using p ij by auto
    next
      case (Suc i')
      then obtain j' where j': "j = Suc j'" using ij by (cases j) auto
      have "(i', j') \<in> {(i, j). i < j \<and> j < n}" using ij Suc j' by simp
      then have "(\<lambda>(i, j). (Suc i, Suc j)) (i', j') \<in>
                   (\<lambda>(i, j). (Suc i, Suc j)) ` {(i, j). i < j \<and> j < n}"
        by (rule imageI)
      then show ?thesis using p Suc j' by simp
    qed
  qed
  finally show ?case .
qed

lemma distinct_index_pairs: "distinct (index_pairs n)"
proof (induction n)
  case 0
  show ?case by (simp add: index_pairs_def)
next
  case (Suc n)
  have 1: "distinct (map (Pair (0::nat)) [Suc 0..<Suc n])"
    by (simp add: distinct_map inj_on_def del: upt_Suc)
  have 2: "distinct (map (\<lambda>(i, j). (Suc i, Suc j)) (index_pairs n))"
    using Suc by (simp add: distinct_map inj_on_def case_prod_unfold prod_eq_iff)
  have 3: "set (map (Pair (0::nat)) [Suc 0..<Suc n]) \<inter>
           set (map (\<lambda>(i, j). (Suc i, Suc j)) (index_pairs n)) = {}"
    by (auto simp del: upt_Suc)
  show ?case
    unfolding index_pairs_Suc using 1 2 3 by (simp only: distinct_append)
qed

lemma pairs_of_index_pairs:
  "pairs_of xs = map (\<lambda>(i, j). (xs ! i, xs ! j)) (index_pairs (length xs))"
proof (induction xs)
  case Nil
  show ?case by (simp add: index_pairs_def)
next
  case (Cons x xs)
  have row: "map (Pair x) xs = map (\<lambda>j. (x, (x # xs) ! j)) [Suc 0..<Suc (length xs)]"
  proof -
    have "map (\<lambda>j. (x, (x # xs) ! j)) [Suc 0..<Suc (length xs)] =
          map (\<lambda>j. (x, xs ! j)) [0..<length xs]"
      by (simp add: comp_def del: upt_Suc flip: map_Suc_upt)
    also have "\<dots> = map (Pair x) (map (\<lambda>j. xs ! j) [0..<length xs])"
      by (simp add: comp_def)
    finally show ?thesis by (simp add: map_nth)
  qed
  show ?case
    by (simp add: index_pairs_Suc Cons.IH row comp_def case_prod_unfold del: upt_Suc)
qed

lemma collect_total:
  "\<forall>x \<in> set xs. \<not> isl x \<Longrightarrow>
   collect xs = Inr (List.map_filter (\<lambda>x. case x of Inl e \<Rightarrow> None | Inr r \<Rightarrow> r) xs)"
proof (induction xs rule: collect.induct)
  case (4 y rest)
  then show ?case by simp
qed simp_all

lemma map_filter_map': "List.map_filter f (map g xs) = List.map_filter (\<lambda>x. f (g x)) xs"
  by (induction xs) (simp_all split: option.splits)

lemma map_filter_all_None: "\<forall>x \<in> set xs. f x = None \<Longrightarrow> List.map_filter f xs = []"
  by (induction xs) simp_all

lemma length_map_filter_le: "length (List.map_filter f xs) \<le> length xs"
  by (simp add: List.map_filter_def)

lemma pairs_of_filter:
  "pairs_of (filter p xs) = filter (\<lambda>(a, b). p a \<and> p b) (pairs_of xs)"
  by (induction xs) (simp_all add: filter_map comp_def)

lemma collect_filter:
  "\<forall>x \<in> set xs. \<not> q x \<longrightarrow> f x = Inr None \<Longrightarrow>
   collect (map f (filter q xs)) = collect (map f xs)"
proof (induction xs)
  case Nil
  show ?case by simp
next
  case (Cons a xs)
  then have ih: "collect (map f (filter q xs)) = collect (map f xs)" by simp
  show ?case
  proof (cases "q a")
    case True
    show ?thesis
    proof (cases "f a")
      case (Inl e)
      then show ?thesis using True by simp
    next
      case (Inr r)
      then show ?thesis using True ih by (cases r) simp_all
    qed
  next
    case False
    then have "f a = Inr None" using Cons.prems by simp
    then show ?thesis using False ih by simp
  qed
qed

lemma set_pairs_of: "(a, b) \<in> set (pairs_of xs) \<Longrightarrow> a \<in> set xs \<and> b \<in> set xs"
  by (induction xs) auto

lemma pair_result_no_throw:
  assumes "single_ring_result P a" and "single_ring_result P b"
  shows "\<not> isl (pair_result P I ns a b)"
  using assms
  by (auto simp: pair_result_def single_ring_result_def intersect_pair_def coords_key_def
           split: option.splits list.splits sum.splits)

lemma overlap_of_Some:
  assumes "overlap_of P I ns a b = Some m"
  shows "\<exists>p q. polygon_of P a = Some p \<and> polygon_of P b = Some q \<and> I p q = Some (geo_data m)"
  using assms
  by (auto simp: overlap_of_def pair_result_def polygon_of_def intersect_pair_def
           split: option.splits list.splits sum.splits)

lemma overlap_of_disjoint:
  assumes "disjoint_at P I a b"
  shows "overlap_of P I ns a b = None"
proof (cases "overlap_of P I ns a b")
  case None
  then show ?thesis .
next
  case (Some m)
  then obtain p q where "polygon_of P a = Some p" "polygon_of P b = Some q"
    "I p q = Some (geo_data m)"
    using overlap_of_Some by blast
  with assms show ?thesis by (simp add: disjoint_at_def)
qed

lemma combine_total:
  assumes "\<forall>r \<in> set results. single_ring_result P r"
  shows "combine P I ns results =
         Inr (List.map_filter (\<lambda>(i, j). overlap_of P I ns (results ! i) (results ! j))
                (index_pairs (length results)))"
proof -
  have "\<forall>x \<in> set (map (\<lambda>(a, b). pair_result P I ns a b) (pairs_of results)). \<not> isl x"
    using assms pair_result_no_throw [of P _ _ I ns] by (auto dest!: set_pairs_of)
  then have "combine P I ns results =
      Inr (List.map_filter (\<lambda>x. case x of Inl e \<Rightarrow> None | Inr r \<Rightarrow> r)
             (map (\<lambda>(a, b). pair_result P I ns a b) (pairs_of results)))"
    unfolding combine_collect by (rule collect_total)
  also have "List.map_filter (\<lambda>x. case x of Inl e \<Rightarrow> None | Inr r \<Rightarrow> r)
             (map (\<lambda>(a, b). pair_result P I ns a b) (pairs_of results)) =
        List.map_filter (\<lambda>(i, j). overlap_of P I ns (results ! i) (results ! j))
                (index_pairs (length results))"
    unfolding pairs_of_index_pairs map_filter_map'
    by (simp add: overlap_of_def case_prod_unfold)
  finally show ?thesis .
qed

lemma combine_filter:
  "combine P I ns (filter has_data results) = combine P I ns results"
proof -
  have "\<forall>x \<in> set (pairs_of results).
          \<not> (case x of (a, b) \<Rightarrow> has_data a \<and> has_data b) \<longrightarrow>
          (case x of (a, b) \<Rightarrow> pair_result P I ns a b) = Inr None"
    by (auto simp: has_data_def pair_result_def split: option.splits)
  then show ?thesis
    unfolding combine_collect pairs_of_filter by (rule collect_filter)
qed

section \<open>The claims about the overlap pass\<close>

text \<open>
  Claim C3. For a list of \<open>N\<close> results of which each is without data or holds one
  single-ring polygon that turf accepts, \<^verbatim>\<open>combine\<close> returns (it does not throw) the
  items of the pairs of positions \<open>(i, j)\<close> with \<open>i < j < N\<close>, each pair taken once, in
  the order of the loops; so it returns at most \<open>N choose 2\<close> items. A pair has an item
  only if \<open>intersect\<close> returned a region for the polygons of the two results, and
  when \<open>intersect\<close> returns \<^verbatim>\<open>null\<close> for every pair, nothing is returned. Whether two
  polygons overlap geometrically is what the library function \<open>intersect\<close> decides.
\<close>

theorem overlap_pairs_bound:
  assumes "\<forall>r \<in> set results. single_ring_result polygon r"
  shows "\<exists>xs. combine polygon intersect ns results = Inr xs \<and>
           xs = List.map_filter
                  (\<lambda>(i, j). overlap_of polygon intersect ns (results ! i) (results ! j))
                  (index_pairs (length results)) \<and>
           distinct (index_pairs (length results)) \<and>
           set (index_pairs (length results)) = {(i, j). i < j \<and> j < length results} \<and>
           length xs \<le> length results choose 2 \<and>
           (\<forall>i j m. overlap_of polygon intersect ns (results ! i) (results ! j) = Some m \<longrightarrow>
              (\<exists>p q. polygon_of polygon (results ! i) = Some p \<and>
                     polygon_of polygon (results ! j) = Some q \<and>
                     intersect p q = Some (geo_data m))) \<and>
           ((\<forall>i j. i < j \<and> j < length results \<longrightarrow>
               disjoint_at polygon intersect (results ! i) (results ! j)) \<longrightarrow> xs = [])"
proof -
  let ?f = "\<lambda>(i, j). overlap_of polygon intersect ns (results ! i) (results ! j)"
  let ?xs = "List.map_filter ?f (index_pairs (length results))"
  have c: "combine polygon intersect ns results = Inr ?xs"
    using assms by (rule combine_total)
  have "length (index_pairs (length results)) = length results choose 2"
    using length_pairs_of [of results] by (simp add: pairs_of_index_pairs)
  then have len: "length ?xs \<le> length results choose 2"
    using length_map_filter_le [of ?f "index_pairs (length results)"] by simp
  have prov: "\<forall>i j m. overlap_of polygon intersect ns (results ! i) (results ! j) = Some m \<longrightarrow>
              (\<exists>p q. polygon_of polygon (results ! i) = Some p \<and>
                     polygon_of polygon (results ! j) = Some q \<and>
                     intersect p q = Some (geo_data m))"
    using overlap_of_Some by blast
  have dis: "?xs = []"
    if "\<forall>i j. i < j \<and> j < length results \<longrightarrow>
               disjoint_at polygon intersect (results ! i) (results ! j)"
  proof (rule map_filter_all_None, rule ballI)
    fix x
    assume "x \<in> set (index_pairs (length results))"
    then obtain i j where "x = (i, j)" "i < j" "j < length results"
      by (auto simp: set_index_pairs)
    with that show "?f x = None" by (simp add: overlap_of_disjoint)
  qed
  show ?thesis
    using c len prov dis distinct_index_pairs set_index_pairs by blast
qed

theorem overlap_pairs_bound_witness:
  "combine accept_polygon same_region zero_str
     [square_result 0, square_result 0, square_result 5] =
     Inr [\<lparr>geo_key = ''intersection-0,0-0,0'', geo_data = [square_ring 0],
           geo_style = \<lparr>color = ''#8b5cf6'', weight = 2, opacity = 1, fillOpacity = 0.4\<rparr>\<rparr>] \<and>
   combine accept_polygon same_region zero_str [square_result 0, square_result 5] = Inr []"
proof -
  have wf: "single_ring_result accept_polygon (square_result x)" for x
    by (simp add: single_ring_result_def square_result_def square_response_def
          square_ring_def accept_polygon_def)
  have wf3: "\<forall>r \<in> set [square_result 0, square_result 0, square_result 5].
               single_ring_result accept_polygon r"
    using wf by simp
  have wf2: "\<forall>r \<in> set [square_result 0, square_result 5].
               single_ring_result accept_polygon r"
    using wf by simp
  have pairs3: "index_pairs (Suc (Suc (Suc 0))) =
                  [(0, Suc 0), (0, Suc (Suc 0)), (Suc 0, Suc (Suc 0))]"
    by (simp add: index_pairs_def)
  have same: "overlap_of accept_polygon same_region zero_str (square_result 0) (square_result 0) =
      Some \<lparr>geo_key = ''intersection-0,0-0,0'', geo_data = [square_ring 0],
           geo_style = \<lparr>color = ''#8b5cf6'', weight = 2, opacity = 1, fillOpacity = 0.4\<rparr>\<rparr>"
    by (simp add: overlap_of_def pair_result_def intersect_pair_def coords_key_def
          square_result_def square_response_def accept_polygon_def same_region_def
          zero_str_def square_ring_def)
  have other: "disjoint_at accept_polygon same_region (square_result 0) (square_result 5)"
    by (simp add: disjoint_at_def polygon_of_def square_result_def square_response_def
          accept_polygon_def same_region_def square_ring_def)
  have len3: "length [square_result 0, square_result 0, square_result 5] = Suc (Suc (Suc 0))"
    by simp
  have none: "overlap_of accept_polygon same_region zero_str (square_result 0)
                (square_result 5) = None"
    using other by (rule overlap_of_disjoint)
  obtain xs where c3: "combine accept_polygon same_region zero_str
                         [square_result 0, square_result 0, square_result 5] = Inr xs"
    and x3: "xs = List.map_filter
                  (\<lambda>(i, j). overlap_of accept_polygon same_region zero_str
                     ([square_result 0, square_result 0, square_result 5] ! i)
                     ([square_result 0, square_result 0, square_result 5] ! j))
                  (index_pairs (length [square_result 0, square_result 0, square_result 5]))"
    using overlap_pairs_bound [OF wf3, of same_region zero_str]
    by (elim exE conjE) (rule that)
  have "xs = [\<lparr>geo_key = ''intersection-0,0-0,0'', geo_data = [square_ring 0],
           geo_style = \<lparr>color = ''#8b5cf6'', weight = 2, opacity = 1, fillOpacity = 0.4\<rparr>\<rparr>]"
    unfolding x3 len3 pairs3 by (simp add: same none)
  with c3 have first: "combine accept_polygon same_region zero_str
     [square_result 0, square_result 0, square_result 5] =
     Inr [\<lparr>geo_key = ''intersection-0,0-0,0'', geo_data = [square_ring 0],
           geo_style = \<lparr>color = ''#8b5cf6'', weight = 2, opacity = 1, fillOpacity = 0.4\<rparr>\<rparr>]"
    by simp
  have dis: "\<forall>i j. i < j \<and> j < length [square_result 0, square_result 5] \<longrightarrow>
               disjoint_at accept_polygon same_region
                 ([square_result 0, square_result 5] ! i)
                 ([square_result 0, square_result 5] ! j)"
    using other by (auto simp: less_Suc_eq)
  obtain ys where c2: "combine accept_polygon same_region zero_str
                         [square_result 0, square_result 5] = Inr ys"
    and e2: "(\<forall>i j. i < j \<and> j < length [square_result 0, square_result 5] \<longrightarrow>
               disjoint_at accept_polygon same_region
                 ([square_result 0, square_result 5] ! i)
                 ([square_result 0, square_result 5] ! j)) \<longrightarrow> ys = []"
    using overlap_pairs_bound [OF wf2, of same_region zero_str]
    by (elim exE conjE) (rule that)
  from e2 dis have "ys = []" by (rule mp)
  with c2 have second: "combine accept_polygon same_region zero_str
                  [square_result 0, square_result 5] = Inr []"
    by simp
  from first second show ?thesis by simp
qed

text \<open>
  Claim C4 says that no intersection is produced while a fetch for one of the markers
  is unsettled. \<^verbatim>\<open>combine\<close> has no such gate: it runs on every list of results, skips
  the results without data (\<^verbatim>\<open>if (!dataI) continue\<close>) and intersects the others.
  With two results that hold the same square and a third that is pending, it returns the
  intersection of the first two.
\<close>

theorem overlap_with_pending_fetch:
  "q_status pending_result = Pending \<and> q_data pending_result = None \<and>
   combine accept_polygon same_region zero_str
     [square_result 0, square_result 0, pending_result] =
     Inr [\<lparr>geo_key = ''intersection-0,0-0,0'', geo_data = [square_ring 0],
           geo_style = \<lparr>color = ''#8b5cf6'', weight = 2, opacity = 1, fillOpacity = 0.4\<rparr>\<rparr>]"
  by (simp add: combine_collect pair_result_def intersect_pair_def coords_key_def
        square_result_def square_response_def accept_polygon_def same_region_def
        zero_str_def square_ring_def pending_result_def)

text \<open>
  Claim C4, amended. A result without data, as that of a fetch that has not settled,
  takes part in no intersection: \<^verbatim>\<open>combine\<close> returns for every list of results what it
  returns for the results that have data, in their order, whether or not other fetches
  are pending.
\<close>

theorem overlap_equals_settled_only:
  "combine polygon intersect ns results =
     combine polygon intersect ns (filter has_data results)"
  by (simp add: combine_filter)

theorem overlap_equals_settled_only_witness:
  "combine accept_polygon same_region zero_str
     [square_result 0, pending_result, square_result 0] =
   combine accept_polygon same_region zero_str [square_result 0, square_result 0]"
  using overlap_equals_settled_only [of accept_polygon same_region zero_str
          "[square_result 0, pending_result, square_result 0]"]
  by (simp add: has_data_def square_result_def pending_result_def)

end
